theory Spec2Isabelle
  imports Main
begin

section \<open>JavaScript strings\<close>

text \<open>
  Strings of the application are modelled as HOL strings, one \<open>char\<close> per UTF-16 code
  unit below 256. \<open>String.prototype.trim\<close> removes the ECMAScript white space and line
  terminators at both ends; below 256 these are TAB, LF, VT, FF, CR, SPACE and NBSP.
\<close>

type_synonym jsstring = string

definition is_whitespace :: "char \<Rightarrow> bool" where
  "is_whitespace ch \<longleftrightarrow>
     ch \<in> set [CHR 0x09, CHR 0x0A, CHR 0x0B, CHR 0x0C, CHR 0x0D, CHR 0x20, CHR 0xA0]"

definition trim :: "jsstring \<Rightarrow> jsstring" where
  "trim s = rev (dropWhile is_whitespace (rev (dropWhile is_whitespace s)))"

fun startsWith :: "jsstring \<Rightarrow> jsstring \<Rightarrow> bool" where
  "startsWith s [] = True"
| "startsWith [] (y # ys) = False"
| "startsWith (x # xs) (y # ys) = (x = y \<and> startsWith xs ys)"

fun includes_str :: "jsstring \<Rightarrow> jsstring \<Rightarrow> bool" where
  "includes_str [] t = (t = [])"
| "includes_str (x # xs) t = (startsWith (x # xs) t \<or> includes_str xs t)"

text \<open>Decimal rendering of a non-negative integer, as a template literal prints it.\<close>

definition digit :: "nat \<Rightarrow> char" where
  "digit d = char_of (of_char (CHR ''0'') + d)"

fun digits :: "nat \<Rightarrow> nat \<Rightarrow> jsstring" where
  "digits 0 n = []"
| "digits (Suc fuel) n = (if n < 10 then [digit n] else digits fuel (n div 10) @ [digit (n mod 10)])"

definition toString_nat :: "nat \<Rightarrow> jsstring" where
  "toString_nat n = digits (Suc n) n"

section \<open>Application state\<close>

text \<open>
  The \<open>useState\<close> cells of the \<open>App\<close> component (\<open>src/app.jsx\<close>, lines 143--160). The cells
  that only drive presentation (\<open>isLoading\<close>, \<open>isMobileMenuOpen\<close>, \<open>currentPage\<close>) are
  not read by any function modelled here and are left out.
\<close>

datatype MicPermission = granted | denied | prompt

datatype CameraMode = user | environment

record app_state =
  isListening :: bool
  isCameraActive :: bool
  assistantResponse :: jsstring
  cameraMode :: CameraMode
  mediaStream :: "nat option"
  isProcessing :: bool
  capturedImage :: "jsstring option"
  isSpeaking :: bool
  speechEnabled :: bool
  currentQuestion :: jsstring
  error :: "jsstring option"
  isVoicesLoaded :: bool
  microphonePermission :: "MicPermission option"

text \<open>
  Every function of the component is re-created by each render and closes over the state
  values of that render. A function therefore takes two arguments of state: the values
  \<open>c\<close> captured by the render that created it (what \<open>isSpeaking\<close>, \<open>error\<close>, ... read
  inside the function body), and the world \<open>w\<close> whose field \<open>st\<close> holds the latest values
  written by the \<open>set...\<close> calls. A setter never changes a captured value.
\<close>

datatype js_error = JsError (err_name: jsstring) (err_message: jsstring)

text \<open>
  Completion callbacks handed to \<open>speak\<close>, as data: the two arrow functions of the source
  (in \<open>startListening\<close>, line 459, and in \<open>recognition.onresult\<close>, line 602) with the render
  values they capture, and an opaque caller-supplied callback identified by a number.
\<close>

datatype callback =
    UserCb nat
  | StartRecognitionCb app_state
  | ProcessQuestionCb app_state jsstring

record voice =
  v_lang :: jsstring
  v_name :: jsstring
  v_localService :: bool

record utterance =
  u_id :: nat
  u_text :: jsstring
  u_callback :: "callback option"
  u_voice :: "voice option"

datatype timer_action =
    AttemptSpeak app_state jsstring "callback option"
  | Watchdog app_state
  | RestartRecognition

record timer =
  t_id :: nat
  t_delay :: nat
  t_action :: timer_action

record media_stream =
  facing :: CameraMode
  live :: bool

record video_element =
  readyState :: nat
  videoWidth :: nat
  srcObject :: "nat option"
  frame_data :: jsstring

text \<open>Observable calls, recorded in order (a ghost field; the code keeps no such log).\<close>

datatype trace_event =
    SpeakCalled jsstring
  | Invoked callback
  | RecStartCalled
  | RecStopCalled
  | AnalyzeCalled jsstring jsstring
  | GetUserMediaCalled CameraMode
  | TrackStopped nat

text \<open>
  The world: the React state, the refs, and the platform objects the component talks to.
  \<^item> \<open>recognitionRef\<close>: whether \<open>recognitionRef.current\<close> holds a recognition object;
    \<open>rec_started\<close>: whether the platform recogniser is running (\<open>start()\<close> then throws).
  \<^item> \<open>canvasRef\<close>: \<open>None\<close> when the ref is empty, otherwise whether a 2d context exists.
  \<^item> \<open>timers\<close>: the pending \<open>setTimeout\<close> entries; ids are positive, hence truthy.
  \<^item> \<open>synth_queue\<close>: utterances the synthesis engine is speaking or holds pending;
    \<open>synth_cancelled\<close>: utterances removed by \<open>cancel()\<close> whose final event is still due.
  \<^item> \<open>synth_throws\<close>: the synthesis interface raises on every access.
  \<^item> \<open>streams\<close>: the store of media streams, by handle.
\<close>

record world =
  st :: app_state
  hasSpeechRecognition :: bool
  hasSpeechSynthesis :: bool
  OPENAI_API_KEY :: "jsstring option"
  utteranceRef :: "utterance option"
  speechTimeoutRef :: "nat option"
  recognitionRef :: bool
  rec_started :: bool
  videoRef :: "video_element option"
  canvasRef :: "bool option"
  timers :: "timer list"
  next_id :: nat
  synth_throws :: bool
  voices :: "voice list"
  synth_queue :: "utterance list"
  synth_cancelled :: "utterance list"
  streams :: "nat \<Rightarrow> media_stream option"
  trace :: "trace_event list"

abbreviation record_event :: "trace_event \<Rightarrow> world \<Rightarrow> world" where
  "record_event e w \<equiv> w\<lparr>trace := trace w @ [e]\<rparr>"

abbreviation setIsSpeaking :: "bool \<Rightarrow> world \<Rightarrow> world" where
  "setIsSpeaking b w \<equiv> w\<lparr>st := (st w)\<lparr>isSpeaking := b\<rparr>\<rparr>"

abbreviation setIsProcessing :: "bool \<Rightarrow> world \<Rightarrow> world" where
  "setIsProcessing b w \<equiv> w\<lparr>st := (st w)\<lparr>isProcessing := b\<rparr>\<rparr>"

abbreviation setIsListening :: "bool \<Rightarrow> world \<Rightarrow> world" where
  "setIsListening b w \<equiv> w\<lparr>st := (st w)\<lparr>isListening := b\<rparr>\<rparr>"

abbreviation setError :: "jsstring option \<Rightarrow> world \<Rightarrow> world" where
  "setError e w \<equiv> w\<lparr>st := (st w)\<lparr>error := e\<rparr>\<rparr>"

abbreviation setAssistantResponse :: "jsstring \<Rightarrow> world \<Rightarrow> world" where
  "setAssistantResponse r w \<equiv> w\<lparr>st := (st w)\<lparr>assistantResponse := r\<rparr>\<rparr>"

abbreviation setCurrentQuestion :: "jsstring \<Rightarrow> world \<Rightarrow> world" where
  "setCurrentQuestion q w \<equiv> w\<lparr>st := (st w)\<lparr>currentQuestion := q\<rparr>\<rparr>"

abbreviation setCapturedImage :: "jsstring option \<Rightarrow> world \<Rightarrow> world" where
  "setCapturedImage i w \<equiv> w\<lparr>st := (st w)\<lparr>capturedImage := i\<rparr>\<rparr>"

abbreviation setCameraMode :: "CameraMode \<Rightarrow> world \<Rightarrow> world" where
  "setCameraMode m w \<equiv> w\<lparr>st := (st w)\<lparr>cameraMode := m\<rparr>\<rparr>"

abbreviation setMediaStream :: "nat option \<Rightarrow> world \<Rightarrow> world" where
  "setMediaStream s w \<equiv> w\<lparr>st := (st w)\<lparr>mediaStream := s\<rparr>\<rparr>"

abbreviation setMicrophonePermission :: "MicPermission option \<Rightarrow> world \<Rightarrow> world" where
  "setMicrophonePermission p w \<equiv> w\<lparr>st := (st w)\<lparr>microphonePermission := p\<rparr>\<rparr>"

section \<open>Timers\<close>

definition setTimeout :: "timer_action \<Rightarrow> nat \<Rightarrow> world \<Rightarrow> nat \<times> world" where
  "setTimeout a ms w =
     (next_id w,
      w\<lparr>timers := timers w @ [\<lparr>t_id = next_id w, t_delay = ms, t_action = a\<rparr>],
        next_id := Suc (next_id w)\<rparr>)"

definition clearTimeout :: "nat \<Rightarrow> world \<Rightarrow> world" where
  "clearTimeout i w = w\<lparr>timers := filter (\<lambda>t. t_id t \<noteq> i) (timers w)\<rparr>"

definition clearSpeechTimeout :: "world \<Rightarrow> world" where
  \<comment> \<open>\<open>if (speechTimeoutRef.current) clearTimeout(speechTimeoutRef.current)\<close>\<close>
  "clearSpeechTimeout w = (case speechTimeoutRef w of None \<Rightarrow> w | Some i \<Rightarrow> clearTimeout i w)"

section \<open>Speech output: \<open>stopSpeaking\<close> and \<open>speak\<close>\<close>

definition stopSpeaking :: "world \<Rightarrow> world" where
  "stopSpeaking w =
     (if synth_throws w then w
      else
        let w1 = (if synth_queue w \<noteq> []
                  then w\<lparr>synth_cancelled := synth_cancelled w @ synth_queue w, synth_queue := []\<rparr>
                  else w);
            w2 = clearSpeechTimeout w1
        in (setIsSpeaking False w2)\<lparr>utteranceRef := None\<rparr>)"

definition preferredVoice :: "voice list \<Rightarrow> voice option" where
  "preferredVoice vs =
     (case find (\<lambda>v. startsWith (v_lang v) ''en'' \<and>
                      (includes_str (v_name v) ''Google'' \<or> includes_str (v_name v) ''Microsoft''
                       \<or> includes_str (v_name v) ''Natural'')) vs of
        Some v \<Rightarrow> Some v
      | None \<Rightarrow>
          (case find (\<lambda>v. startsWith (v_lang v) ''en'' \<and> v_localService v) vs of
             Some v \<Rightarrow> Some v
           | None \<Rightarrow> find (\<lambda>v. startsWith (v_lang v) ''en'') vs))"

text \<open>
  \<open>attemptSpeak\<close> (lines 275--341), the inner function of \<open>speak\<close>. It raises when the
  synthesis interface does; it re-schedules itself after 100 ms while no voice is known;
  otherwise it builds the utterance, hands it to the engine and arms the watchdog. The
  retry timer and the watchdog share \<open>speechTimeoutRef\<close>. The callback is only stored here.
\<close>

definition attemptSpeak ::
  "app_state \<Rightarrow> jsstring \<Rightarrow> callback option \<Rightarrow> world \<Rightarrow> js_error + world" where
  "attemptSpeak c text cb w =
     (if synth_throws w then Inl (JsError ''Error'' ''speech synthesis unavailable'')
      else if voices w = [] \<and> \<not> isVoicesLoaded c then
        (let (i, w1) = setTimeout (AttemptSpeak c text cb) 100 w
         in Inr (w1\<lparr>speechTimeoutRef := Some i\<rparr>))
      else
        (let u = \<lparr>u_id = next_id w, u_text = trim text, u_callback = cb,
                  u_voice = preferredVoice (voices w)\<rparr>;
             w1 = w\<lparr>utteranceRef := Some u, next_id := Suc (next_id w),
                    synth_queue := synth_queue w @ [u]\<rparr>;
             (i, w2) = setTimeout (Watchdog c) (max (length text * 100) 5000) w1
         in Inr (w2\<lparr>speechTimeoutRef := Some i\<rparr>)))"

definition call_opt :: "(callback \<Rightarrow> world \<Rightarrow> world) \<Rightarrow> callback option \<Rightarrow> world \<Rightarrow> world" where
  \<comment> \<open>\<open>if (onEndCallback) onEndCallback()\<close>\<close>
  "call_opt invoker cb w = (case cb of None \<Rightarrow> w | Some f \<Rightarrow> invoker f w)"

text \<open>
  \<open>speak\<close> (lines 260--353), with the meaning of ``call the callback'' as a parameter so
  that the functions a callback runs can themselves use \<open>speak\<close> without a callback.
\<close>

definition speak_with ::
  "(callback \<Rightarrow> world \<Rightarrow> world) \<Rightarrow> app_state \<Rightarrow> jsstring \<Rightarrow> callback option \<Rightarrow> world \<Rightarrow> world" where
  "speak_with invoker c text cb w0 =
     (let w = record_event (SpeakCalled text) w0 in
      if \<not> speechEnabled c \<or> \<not> hasSpeechSynthesis w \<or> trim text = []
         \<or> microphonePermission c \<noteq> Some granted
      then call_opt invoker cb w
      else
        let w1 = stopSpeaking w;
            w2 = clearSpeechTimeout w1
        in case attemptSpeak c text cb w2 of
             Inr w3 \<Rightarrow> w3
           | Inl e \<Rightarrow> call_opt invoker cb ((setIsSpeaking False w2)\<lparr>utteranceRef := None\<rparr>))"

definition speak_plain :: "app_state \<Rightarrow> jsstring \<Rightarrow> world \<Rightarrow> world" where
  \<comment> \<open>\<open>speak(text)\<close> with no callback\<close>
  "speak_plain c text w = speak_with (\<lambda>f w'. w') c text None w"

section \<open>Frame capture and \<open>processQuestion\<close>\<close>

definition captureImage :: "world \<Rightarrow> jsstring option" where
  "captureImage w =
     (case videoRef w of
        None \<Rightarrow> None
      | Some video \<Rightarrow>
          (case canvasRef w of
             None \<Rightarrow> None
           | Some has2d \<Rightarrow>
               if readyState video < 2 \<or> videoWidth video = 0 then None
               else if \<not> has2d then None
               else Some (frame_data video)))"

text \<open>
  An \<open>async\<close> function runs up to its first \<open>await\<close> and is resumed later with the
  outcome of the awaited operation; other handlers may run in between. Each such function
  is a pair: \<open>..._begin\<close> returns \<open>Finished\<close> when it returned before any \<open>await\<close> and
  \<open>Awaiting\<close> otherwise, and \<open>..._resume\<close> takes the outcome and the world of that moment.
\<close>

datatype 'a async = Finished world | Awaiting 'a world

definition MSG_CAMERA_NOT_ACTIVE :: jsstring where
  "MSG_CAMERA_NOT_ACTIVE = ''Camera is not active. Please turn on the camera first.''"

definition MSG_UNABLE_TO_CAPTURE :: jsstring where
  "MSG_UNABLE_TO_CAPTURE = ''Unable to capture image. Please ensure the camera is working.''"

definition MSG_ANALYSIS_FAILED :: jsstring where
  "MSG_ANALYSIS_FAILED =
     ''Sorry, I encountered an error analyzing the image. Please try again.''"

text \<open>
  \<open>processQuestion\<close> (lines 383--422). The awaited operation is
  \<open>analyzeImageWithOpenAI(imageDataUrl, question)\<close>; \<open>Awaiting\<close> carries the image.
  The \<open>finally\<close> block runs on every way out of the \<open>try\<close>.
\<close>

definition processQuestion_begin :: "app_state \<Rightarrow> jsstring \<Rightarrow> world \<Rightarrow> jsstring async" where
  "processQuestion_begin c question w =
     (if \<not> isCameraActive c then
        Finished (setIsProcessing False
          (speak_plain c MSG_CAMERA_NOT_ACTIVE (setError (Some MSG_CAMERA_NOT_ACTIVE) w)))
      else
        (case captureImage w of
           None \<Rightarrow>
             Finished (setIsProcessing False (setIsProcessing False
               (speak_plain c MSG_UNABLE_TO_CAPTURE (setError (Some MSG_UNABLE_TO_CAPTURE) w))))
         | Some imageDataUrl \<Rightarrow>
             if imageDataUrl = [] then
               Finished (setIsProcessing False (setIsProcessing False
                 (speak_plain c MSG_UNABLE_TO_CAPTURE (setError (Some MSG_UNABLE_TO_CAPTURE) w))))
             else
               Awaiting imageDataUrl
                 (record_event (AnalyzeCalled imageDataUrl question)
                    (setCapturedImage (Some imageDataUrl) w))))"

definition processQuestion_resume :: "app_state \<Rightarrow> js_error + jsstring \<Rightarrow> world \<Rightarrow> world" where
  "processQuestion_resume c result w =
     (case result of
        Inr response \<Rightarrow>
          setIsProcessing False
            (speak_plain c response (setError None (setAssistantResponse response w)))
      | Inl e \<Rightarrow>
          (let errorMessage = (if err_message e \<noteq> [] then err_message e else MSG_ANALYSIS_FAILED)
           in setIsProcessing False
                (speak_plain c errorMessage
                   (setAssistantResponse errorMessage (setError (Some errorMessage) w)))))"

section \<open>The recogniser and the completion callbacks\<close>

text \<open>
  \<open>recognition.start()\<close> raises \<open>InvalidStateError\<close> when the recogniser is already
  running. \<open>recognition.stop()\<close> only asks the platform to stop; the \<open>end\<close> event follows.
\<close>

definition recognition_start :: "world \<Rightarrow> js_error option \<times> world" where
  "recognition_start w =
     (let w1 = record_event RecStartCalled w in
      if rec_started w then (Some (JsError ''InvalidStateError'' ''recognition has already started''), w1)
      else (None, w1\<lparr>rec_started := True\<rparr>))"


definition MSG_UNABLE_TO_START :: jsstring where
  "MSG_UNABLE_TO_START = ''Unable to start voice recognition. Please try again.''"

text \<open>The arrow function passed to \<open>speak\<close> by \<open>startListening\<close> (lines 459--471).\<close>

definition startListening_callback :: "app_state \<Rightarrow> world \<Rightarrow> world" where
  "startListening_callback c w =
     (if recognitionRef w \<and> \<not> isListening c then
        (case recognition_start w of
           (None, w1) \<Rightarrow> w1
         | (Some e, w1) \<Rightarrow>
             setIsProcessing False
               (speak_plain c MSG_UNABLE_TO_START (setError (Some MSG_UNABLE_TO_START) w1)))
      else w)"

text \<open>
  Calling a callback. The call is recorded. The callback of \<open>recognition.onresult\<close> is
  \<open>() => { processQuestion(transcript); }\<close>: it starts the \<open>async\<close> function and does
  not wait for it.
\<close>

fun invoke :: "callback \<Rightarrow> world \<Rightarrow> world" where
  "invoke (UserCb n) w = record_event (Invoked (UserCb n)) w"
| "invoke (StartRecognitionCb c) w =
     startListening_callback c (record_event (Invoked (StartRecognitionCb c)) w)"
| "invoke (ProcessQuestionCb c transcript) w =
     (case processQuestion_begin c transcript
             (record_event (Invoked (ProcessQuestionCb c transcript)) w) of
        Finished w' \<Rightarrow> w'
      | Awaiting imageDataUrl w' \<Rightarrow> w')"

definition speak :: "app_state \<Rightarrow> jsstring \<Rightarrow> callback option \<Rightarrow> world \<Rightarrow> world" where
  "speak = speak_with invoke"

section \<open>Events delivered by the platform\<close>

text \<open>
  The handlers installed on an utterance by \<open>attemptSpeak\<close> (lines 305--330), and the
  bodies of the three kinds of timer callback: the retry of \<open>attemptSpeak\<close> (line 279, not
  inside any \<open>try\<close> when it runs), the watchdog (lines 334--340), which reads the
  \<open>isSpeaking\<close> of the render that created \<open>speak\<close>, and the restart of the recogniser
  (lines 615--623).
\<close>

definition utterance_onstart :: "utterance \<Rightarrow> world \<Rightarrow> world" where
  "utterance_onstart u w = setIsSpeaking True w"

definition utterance_onend :: "utterance \<Rightarrow> world \<Rightarrow> world" where
  "utterance_onend u w =
     call_opt invoke (u_callback u) ((setIsSpeaking False w)\<lparr>utteranceRef := None\<rparr>)"

definition utterance_onerror :: "utterance \<Rightarrow> jsstring \<Rightarrow> world \<Rightarrow> world" where
  "utterance_onerror u code w =
     call_opt invoke (u_callback u) ((setIsSpeaking False w)\<lparr>utteranceRef := None\<rparr>)"

definition run_timer :: "timer_action \<Rightarrow> world \<Rightarrow> world" where
  "run_timer a w =
     (case a of
        AttemptSpeak c text cb \<Rightarrow>
          (case attemptSpeak c text cb w of Inr w' \<Rightarrow> w' | Inl e \<Rightarrow> w)
      | Watchdog c \<Rightarrow>
          (if isSpeaking c then (setIsSpeaking False w)\<lparr>utteranceRef := None\<rparr> else w)
      | RestartRecognition \<Rightarrow>
          (if recognitionRef w then snd (recognition_start w) else w))"

datatype env_event =
    TimerFires nat
  | UtteranceStart nat
  | UtteranceEnd nat
  | UtteranceError nat jsstring

definition drop_utterance :: "nat \<Rightarrow> world \<Rightarrow> world" where
  "drop_utterance i w =
     w\<lparr>synth_queue := filter (\<lambda>u. u_id u \<noteq> i) (synth_queue w),
       synth_cancelled := filter (\<lambda>u. u_id u \<noteq> i) (synth_cancelled w)\<rparr>"

text \<open>
  One event. A timer fires only while it is pending and is gone afterwards. The final
  event of an utterance (\<open>end\<close> or \<open>error\<close>) comes at most once, for an utterance the
  engine was given; \<open>start\<close> comes only for an utterance still in the queue.
\<close>

fun step :: "env_event \<Rightarrow> world \<Rightarrow> world" where
  "step (TimerFires i) w =
     (case find (\<lambda>t. t_id t = i) (timers w) of
        None \<Rightarrow> w
      | Some t \<Rightarrow> run_timer (t_action t) (clearTimeout i w))"
| "step (UtteranceStart i) w =
     (case find (\<lambda>u. u_id u = i) (synth_queue w) of
        None \<Rightarrow> w
      | Some u \<Rightarrow> utterance_onstart u w)"
| "step (UtteranceEnd i) w =
     (case find (\<lambda>u. u_id u = i) (synth_queue w @ synth_cancelled w) of
        None \<Rightarrow> w
      | Some u \<Rightarrow> utterance_onend u (drop_utterance i w))"
| "step (UtteranceError i code) w =
     (case find (\<lambda>u. u_id u = i) (synth_queue w @ synth_cancelled w) of
        None \<Rightarrow> w
      | Some u \<Rightarrow> utterance_onerror u code (drop_utterance i w))"

fun run :: "env_event list \<Rightarrow> world \<Rightarrow> world" where
  "run [] w = w"
| "run (e # es) w = run es (step e w)"

section \<open>Handlers of the recogniser (lines 587--664)\<close>

text \<open>
  The four handlers are created by the effect of lines 576--674 and capture the render
  values \<open>c\<close> of the render whose effect installed them.
\<close>

definition recognition_onstart :: "app_state \<Rightarrow> world \<Rightarrow> world" where
  "recognition_onstart c w = setError None (setIsListening True w)"

definition MSG_DID_NOT_CATCH :: jsstring where
  "MSG_DID_NOT_CATCH = ''I didn't catch that clearly. Please try asking your question again.''"

definition heard_message :: "jsstring \<Rightarrow> jsstring" where
  "heard_message transcript = ''I heard: '' @ transcript @ ''. Let me analyze what I can see.''"

definition recognition_onresult :: "app_state \<Rightarrow> jsstring \<Rightarrow> world \<Rightarrow> world" where
  "recognition_onresult c raw w =
     (let transcript = trim raw in
      if transcript \<noteq> [] \<and> length transcript > 2 then
        speak c (heard_message transcript) (Some (ProcessQuestionCb c transcript))
          (setCurrentQuestion transcript w)
      else
        setIsProcessing False (speak c MSG_DID_NOT_CATCH None w))"

definition falsy_message :: "jsstring option \<Rightarrow> bool" where
  \<comment> \<open>\<open>!error\<close> for a value of type \<open>string | null\<close>\<close>
  "falsy_message e \<longleftrightarrow> e = None \<or> e = Some []"

definition recognition_onend :: "app_state \<Rightarrow> world \<Rightarrow> world" where
  "recognition_onend c w =
     (let w1 = setIsListening False w in
      if falsy_message (error c) \<and> isCameraActive c \<and> microphonePermission c = Some granted
      then snd (setTimeout RestartRecognition 500 w1)
      else w1)"

definition MSG_MIC_DENIED :: jsstring where
  "MSG_MIC_DENIED =
     ''Microphone access denied. Please allow microphone permissions and try again.''"

definition MSG_NO_SPEECH :: jsstring where
  "MSG_NO_SPEECH = ''No speech detected. Please try speaking more clearly.''"

definition MSG_NO_MICROPHONE :: jsstring where
  "MSG_NO_MICROPHONE = ''No microphone found. Please check your microphone.''"

definition MSG_NETWORK :: jsstring where
  "MSG_NETWORK = ''Network error. Please check your internet connection.''"

definition MSG_RECOGNITION_FAILED :: jsstring where
  "MSG_RECOGNITION_FAILED = ''Speech recognition failed. Please try again.''"

text \<open>
  The \<open>switch\<close> of \<open>recognition.onerror\<close>: the message, whether it is to be spoken, and
  whether \<open>setMicrophonePermission('denied')\<close> is called.
\<close>

definition error_switch :: "jsstring \<Rightarrow> jsstring \<times> bool \<times> bool" where
  "error_switch code =
     (if code = ''not-allowed'' \<or> code = ''service-not-allowed'' then (MSG_MIC_DENIED, True, True)
      else if code = ''no-speech'' then (MSG_NO_SPEECH, False, False)
      else if code = ''audio-capture'' then (MSG_NO_MICROPHONE, True, False)
      else if code = ''network'' then (MSG_NETWORK, True, False)
      else if code = ''aborted'' then ([], False, False)
      else (MSG_RECOGNITION_FAILED, True, False))"

definition recognition_onerror :: "app_state \<Rightarrow> jsstring \<Rightarrow> world \<Rightarrow> world" where
  "recognition_onerror c code w =
     (let w1 = setIsListening False w;
          (errorMessage, shouldSpeak, deny) = error_switch code;
          w2 = (if deny then setMicrophonePermission (Some denied) w1 else w1);
          w3 = (if errorMessage \<noteq> [] then
                  (let w' = setError (Some errorMessage) w2
                   in if shouldSpeak then speak c errorMessage None w' else w')
                else w2)
      in setIsProcessing False w3)"

section \<open>\<open>startListening\<close> (lines 424--472)\<close>






section \<open>\<open>switchCamera\<close> (lines 539--573)\<close>

definition camera_name :: "CameraMode \<Rightarrow> jsstring" where
  "camera_name m = (if m = user then ''front'' else ''back'')"

definition MSG_UNABLE_TO_SWITCH :: jsstring where
  "MSG_UNABLE_TO_SWITCH = ''Unable to switch camera. Please try again.''"

definition stop_tracks :: "nat \<Rightarrow> world \<Rightarrow> world" where
  \<comment> \<open>\<open>mediaStream.getTracks().forEach(track => track.stop())\<close>\<close>
  "stop_tracks h w =
     record_event (TrackStopped h)
       (w\<lparr>streams := (streams w)(h := map_option (\<lambda>s. s\<lparr>live := False\<rparr>) (streams w h))\<rparr>)"

definition toggled :: "CameraMode \<Rightarrow> CameraMode" where
  "toggled m = (if m = user then environment else user)"

text \<open>
  The awaited operation is \<open>getUserMedia\<close> with \<open>facingMode: newMode\<close>; its outcome is an
  error or a fresh stream. \<open>setCameraMode(cameraMode)\<close> in the \<open>catch\<close> writes back the
  value captured by the render.
\<close>

definition switchCamera_begin :: "app_state \<Rightarrow> world \<Rightarrow> CameraMode async" where
  "switchCamera_begin c w =
     (let newMode = toggled (cameraMode c);
          w1 = setCameraMode newMode w
      in case (if isCameraActive c then mediaStream c else None) of
           Some h \<Rightarrow> Awaiting newMode (record_event (GetUserMediaCalled newMode) (stop_tracks h w1))
         | None \<Rightarrow>
             Finished (speak c (''Camera mode set to '' @ camera_name newMode @ '' camera.'') None w1))"

definition switchCamera_resume :: "app_state \<Rightarrow> js_error + unit \<Rightarrow> world \<Rightarrow> world" where
  "switchCamera_resume c outcome w =
     (let newMode = toggled (cameraMode c) in
      case outcome of
        Inr _ \<Rightarrow>
          (let h = next_id w;
               w1 = w\<lparr>streams := (streams w)(h \<mapsto> \<lparr>facing = newMode, live = True\<rparr>),
                      next_id := Suc h,
                      videoRef := map_option (\<lambda>v. v\<lparr>srcObject := Some h\<rparr>) (videoRef w)\<rparr>
           in speak c (''Switched to '' @ camera_name newMode @ '' camera.'') None
                (setMediaStream (Some h) w1))
      | Inl e \<Rightarrow> setCameraMode (cameraMode c) (speak c MSG_UNABLE_TO_SWITCH None w))"

definition switchCamera :: "app_state \<Rightarrow> js_error + unit \<Rightarrow> world \<Rightarrow> world" where
  \<comment> \<open>the whole call, when nothing else runs while \<open>getUserMedia\<close> is awaited\<close>
  "switchCamera c outcome w =
     (case switchCamera_begin c w of
        Finished w' \<Rightarrow> w'
      | Awaiting newMode w' \<Rightarrow> switchCamera_resume c outcome w')"

definition live_streams :: "world \<Rightarrow> nat set" where
  "live_streams w = {h. \<exists>s. streams w h = Some s \<and> live s}"

section \<open>\<open>analyzeImageWithOpenAI\<close> (lines 192--258)\<close>

text \<open>
  Parsed JSON. A JavaScript value that may be \<open>undefined\<close> is a \<open>json option\<close>.
  \<open>JNum n\<close> stands for a number that is an integer of magnitude at most \<open>2^53\<close>, which
  JavaScript holds exactly and prints in full; fractions and larger magnitudes, which it
  rounds or prints with an exponent, are outside the model. The message of the
  \<open>TypeError\<close> for reading a property of \<open>null\<close> is the one of V8; other engines word it
  differently.
\<close>

datatype json =
    JNull
  | JBool bool
  | JNum int
  | JStr jsstring
  | JArr "json list"
  | JObj "(jsstring \<times> json) list"

fun truthy :: "json option \<Rightarrow> bool" where
  "truthy None = False"
| "truthy (Some JNull) = False"
| "truthy (Some (JBool b)) = b"
| "truthy (Some (JNum n)) = (n \<noteq> 0)"
| "truthy (Some (JStr s)) = (s \<noteq> [])"
| "truthy (Some (JArr xs)) = True"
| "truthy (Some (JObj kvs)) = True"

text \<open>
  Reading a named property (\<open>choices\<close>, \<open>message\<close>, \<open>content\<close>, \<open>error\<close>) and the index
  \<open>0\<close> of a value that is neither \<open>null\<close> nor \<open>undefined\<close>. In a parsed object the last
  occurrence of a key wins. None of the four names is a property of an array, a string, a
  number or a boolean.
\<close>

fun get_prop :: "json \<Rightarrow> jsstring \<Rightarrow> json option" where
  "get_prop (JObj kvs) name = map_of (rev kvs) name"
| "get_prop v name = None"

fun get_index0 :: "json \<Rightarrow> json option" where
  "get_index0 (JArr xs) = (case xs of [] \<Rightarrow> None | x # _ \<Rightarrow> Some x)"
| "get_index0 (JObj kvs) = map_of (rev kvs) ''0''"
| "get_index0 (JStr s) = (case s of [] \<Rightarrow> None | ch # _ \<Rightarrow> Some (JStr [ch]))"
| "get_index0 v = None"

definition toString_int :: "int \<Rightarrow> jsstring" where
  "toString_int n = (if n < 0 then ''-'' @ toString_nat (nat (- n)) else toString_nat (nat n))"

fun join_comma :: "jsstring list \<Rightarrow> jsstring" where
  "join_comma [] = []"
| "join_comma [x] = x"
| "join_comma (x # y # ys) = x @ '','' @ join_comma (y # ys)"

text \<open>\<open>String(v)\<close>, as a template literal applies it; an array joins its elements.\<close>

fun toString :: "json \<Rightarrow> jsstring" where
  "toString JNull = ''null''"
| "toString (JBool b) = (if b then ''true'' else ''false'')"
| "toString (JNum n) = toString_int n"
| "toString (JStr s) = s"
| "toString (JArr xs) = join_comma (map (\<lambda>x. if x = JNull then [] else toString x) xs)"
| "toString (JObj kvs) = ''[object Object]''"

record response =
  status :: nat
  statusText :: jsstring
  body :: "jsstring + json"

text \<open>
  \<open>body\<close> is what \<open>response.json()\<close> settles to: the parsed value, or the message of the
  \<open>SyntaxError\<close> the parser raises on a body that is not JSON. \<open>fetch\<close> itself rejects
  (with a \<open>TypeError\<close>) on a network failure.
\<close>

datatype fetch_outcome = FetchRejected js_error | FetchResponse response

definition ok :: "response \<Rightarrow> bool" where
  "ok r \<longleftrightarrow> 200 \<le> status r \<and> status r \<le> 299"

record request =
  req_url :: jsstring
  req_authorization :: jsstring
  req_model :: jsstring
  req_text :: jsstring
  req_image_url :: jsstring
  req_detail :: jsstring
  req_max_tokens :: nat

definition OPENAI_API_URL :: jsstring where
  "OPENAI_API_URL = ''https://api.openai.com/v1/chat/completions''"

definition prompt_text :: "jsstring \<Rightarrow> jsstring" where
  "prompt_text question =
     ''You are a visual assistant helping users understand what they see. Analyze this image and answer the question: ''
     @ [CHR 0x22] @ question @ [CHR 0x22, CHR 0x0A, CHR 0x0A]
     @ ''Please provide a clear, detailed, and helpful response. Focus on:'' @ [CHR 0x0A]
     @ ''- Being descriptive and specific about what you observe'' @ [CHR 0x0A]
     @ ''- Answering the user's question directly'' @ [CHR 0x0A]
     @ ''- Including relevant details about colors, objects, people, text, or scenes'' @ [CHR 0x0A]
     @ ''- Keeping the response conversational and accessible'' @ [CHR 0x0A]
     @ ''- If there's text in the image, read it accurately'' @ [CHR 0x0A]
     @ ''- If asked about safety or navigation, provide practical guidance'' @ [CHR 0x0A, CHR 0x0A]
     @ ''Keep your response under 200 words but be thorough and helpful.''"

definition MSG_KEY_NOT_CONFIGURED :: jsstring where
  "MSG_KEY_NOT_CONFIGURED =
     ''OpenAI API key is not configured. Please check your environment variables.''"

definition MSG_INVALID_RESPONSE :: jsstring where
  "MSG_INVALID_RESPONSE = ''Invalid response from AI service''"

definition upstream_text :: "response \<Rightarrow> json \<Rightarrow> jsstring" where
  \<comment> \<open>\<open>errorData?.error?.message || response.statusText\<close>\<close>
  "upstream_text r errorData =
     (let err = (if errorData = JNull then None else get_prop errorData ''error'');
          msg = (case err of None \<Rightarrow> None | Some JNull \<Rightarrow> None | Some e \<Rightarrow> get_prop e ''message'')
      in case msg of
           Some m \<Rightarrow> if truthy (Some m) then toString m else statusText r
         | None \<Rightarrow> statusText r)"

definition answer_field :: "json \<Rightarrow> js_error + json option" where
  \<comment> \<open>\<open>data.choices && data.choices[0] && data.choices[0].message
       && data.choices[0].message.content\<close>, when truthy; reading \<open>null.choices\<close> raises\<close>
  "answer_field data =
     (if data = JNull
      then Inl (JsError ''TypeError'' ''Cannot read properties of null (reading 'choices')'')
      else
        (case get_prop data ''choices'' of
           None \<Rightarrow> Inr None
         | Some choices \<Rightarrow>
             if \<not> truthy (Some choices) then Inr None
             else
               (case get_index0 choices of
                  None \<Rightarrow> Inr None
                | Some first \<Rightarrow>
                    if \<not> truthy (Some first) then Inr None
                    else
                      (case get_prop first ''message'' of
                         None \<Rightarrow> Inr None
                       | Some message \<Rightarrow>
                           if \<not> truthy (Some message) then Inr None
                           else
                             (case get_prop message ''content'' of
                                None \<Rightarrow> Inr None
                              | Some content \<Rightarrow>
                                  if truthy (Some content) then Inr (Some content)
                                  else Inr None)))))"

text \<open>
  The function, given the credential and the network. It returns the requests it sent, in
  order, and its result: the answer, or the error it throws (the \<open>catch\<close> of line 254
  re-throws whatever was raised inside the \<open>try\<close>).
\<close>

definition analyzeImageWithOpenAI ::
  "jsstring option \<Rightarrow> (request \<Rightarrow> fetch_outcome) \<Rightarrow> jsstring \<Rightarrow> jsstring
     \<Rightarrow> request list \<times> (js_error + json)" where
  "analyzeImageWithOpenAI key net imageDataUrl question =
     (case (case key of None \<Rightarrow> None | Some k \<Rightarrow> if k = [] then None else Some k) of
        None \<Rightarrow> ([], Inl (JsError ''Error'' MSG_KEY_NOT_CONFIGURED))
      | Some k \<Rightarrow>
          (let req = \<lparr>req_url = OPENAI_API_URL, req_authorization = ''Bearer '' @ k,
                      req_model = ''gpt-4o'', req_text = prompt_text question,
                      req_image_url = imageDataUrl, req_detail = ''low'',
                      req_max_tokens = 1024\<rparr>
           in ([req],
               (case net req of
                  FetchRejected e \<Rightarrow> Inl e
                | FetchResponse r \<Rightarrow>
                    if \<not> ok r then
                      (case body r of
                         Inl parse_error \<Rightarrow> Inl (JsError ''SyntaxError'' parse_error)
                       | Inr errorData \<Rightarrow>
                           Inl (JsError ''Error''
                                  (''API request failed: '' @ toString_nat (status r) @ '' - ''
                                   @ upstream_text r errorData)))
                    else
                      (case body r of
                         Inl parse_error \<Rightarrow> Inl (JsError ''SyntaxError'' parse_error)
                       | Inr data \<Rightarrow>
                           (case answer_field data of
                              Inl e \<Rightarrow> Inl e
                            | Inr (Some content) \<Rightarrow> Inr content
                            | Inr None \<Rightarrow> Inl (JsError ''Error'' MSG_INVALID_RESPONSE)))))))"

section \<open>What a world still holds\<close>

text \<open>
  The callbacks a world keeps for a later call: those stored in a pending retry of
  \<open>attemptSpeak\<close> and those stored in an utterance whose final event is still due. Nothing
  else in a world refers to a callback. The pending restarts of the recogniser are the
  timers that will call \<open>recognition.start()\<close>.
\<close>

fun timer_callbacks :: "timer list \<Rightarrow> callback list" where
  "timer_callbacks [] = []"
| "timer_callbacks (t # ts) =
     (case t_action t of
        AttemptSpeak c text (Some cb) \<Rightarrow> cb # timer_callbacks ts
      | _ \<Rightarrow> timer_callbacks ts)"

fun utterance_callbacks :: "utterance list \<Rightarrow> callback list" where
  "utterance_callbacks [] = []"
| "utterance_callbacks (u # us) =
     (case u_callback u of
        Some cb \<Rightarrow> cb # utterance_callbacks us
      | None \<Rightarrow> utterance_callbacks us)"

definition held_callbacks :: "world \<Rightarrow> callback list" where
  "held_callbacks w =
     timer_callbacks (timers w) @ utterance_callbacks (synth_queue w)
     @ utterance_callbacks (synth_cancelled w)"

definition restart_timers :: "world \<Rightarrow> timer list" where
  "restart_timers w = filter (\<lambda>t. t_action t = RestartRecognition) (timers w)"

text \<open>
  The platform ends a recognition attempt: the recogniser is no longer running when the
  \<open>end\<close> handler of the recognition object runs.
\<close>

definition recognition_end_event :: "app_state \<Rightarrow> world \<Rightarrow> world" where
  "recognition_end_event c w = recognition_onend c (w\<lparr>rec_started := False\<rparr>)"

section \<open>Reference situations\<close>

text \<open>
  The initial values of the \<open>useState\<close> cells, the mounted component with the
  microphone permission granted and no synthesis voice reported yet, and the same with a
  voice known, the camera started on the back camera and a frame available.
\<close>

definition initial_state :: app_state where
  "initial_state =
     \<lparr>isListening = False, isCameraActive = False, assistantResponse = [],
      cameraMode = environment, mediaStream = None, isProcessing = False,
      capturedImage = None, isSpeaking = False, speechEnabled = True, currentQuestion = [],
      error = None, isVoicesLoaded = False, microphonePermission = None\<rparr>"

definition mounted_world :: world where
  "mounted_world =
     \<lparr>st = initial_state\<lparr>microphonePermission := Some granted\<rparr>,
      hasSpeechRecognition = True, hasSpeechSynthesis = True,
      OPENAI_API_KEY = Some ''sk-test'', utteranceRef = None, speechTimeoutRef = None,
      recognitionRef = True, rec_started = False,
      videoRef = Some \<lparr>readyState = 0, videoWidth = 0, srcObject = None, frame_data = []\<rparr>,
      canvasRef = Some True, timers = [], next_id = 1, synth_throws = False, voices = [],
      synth_queue = [], synth_cancelled = [], streams = (\<lambda>h. None), trace = []\<rparr>"

definition english_voice :: voice where
  "english_voice = \<lparr>v_lang = ''en-US'', v_name = ''Google US English'', v_localService = False\<rparr>"

definition session_world :: world where
  "session_world =
     mounted_world
       \<lparr>st := (st mounted_world)\<lparr>isCameraActive := True, mediaStream := Some 1,
                                  isVoicesLoaded := True\<rparr>,
        voices := [english_voice],
        videoRef := Some \<lparr>readyState = 4, videoWidth = 1280, srcObject = Some 1,
                          frame_data = ''data:image/jpeg;base64,AAAA''\<rparr>,
        streams := (\<lambda>h. None)(1 \<mapsto> \<lparr>facing = environment, live = True\<rparr>),
        next_id := 2\<rparr>"

text \<open>
  Two upstream replies to the vision request: a gateway error whose body is not JSON (the
  text is the parser's complaint), and an API error with a JSON body.
\<close>

definition bad_gateway :: "request \<Rightarrow> fetch_outcome" where
  "bad_gateway req =
     FetchResponse \<lparr>status = 502, statusText = ''Bad Gateway'',
                    body = Inl ''Unexpected token < in JSON at position 0''\<rparr>"

definition rate_limited :: "request \<Rightarrow> fetch_outcome" where
  "rate_limited req =
     FetchResponse \<lparr>status = 429, statusText = ''Too Many Requests'',
        body = Inr (JObj [(''error'', JObj [(''message'', JStr ''Rate limit reached'')])])\<rparr>"

text \<open>
  When \<open>speak\<close> gets as far as the synthesis engine: its guard passes for a non-blank
  text, the synthesis interface does not raise, and a voice is known (or the render saw
  the voices loaded), so that \<open>attemptSpeak\<close> queues the utterance at once.
\<close>

definition can_speak :: "app_state \<Rightarrow> world \<Rightarrow> bool" where
  "can_speak c w \<longleftrightarrow>
     speechEnabled c \<and> hasSpeechSynthesis w \<and> microphonePermission c = Some granted
     \<and> \<not> synth_throws w \<and> (voices w \<noteq> [] \<or> isVoicesLoaded c)"

definition untouched :: "callback \<Rightarrow> world \<Rightarrow> bool" where
  \<comment> \<open>the callback has not been called and the world no longer holds it\<close>
  "untouched x w \<longleftrightarrow> x \<notin> set (held_callbacks w) \<and> Invoked x \<notin> set (trace w)"

text \<open>
  Two calls of \<open>speak\<close> in a row from the same render while no voice is known yet, each
  with a callback of its own.
\<close>

definition first_call_world :: world where
  "first_call_world = speak (st mounted_world) ''First'' (Some (UserCb 1)) mounted_world"

definition second_call_world :: world where
  "second_call_world = speak (st mounted_world) ''Second'' (Some (UserCb 2)) first_call_world"

text \<open>An utterance started from a render in which nothing was being spoken.\<close>

definition spoken_world :: world where
  "spoken_world = speak (st session_world) ''Hello'' None session_world"

text \<open>
  The session while the recogniser is running; its handlers were installed by the effect
  of the render \<open>st session_world\<close>.
\<close>

definition listening_world :: world where
  "listening_world =
     session_world\<lparr>st := (st session_world)\<lparr>isListening := True, isProcessing := True\<rparr>,
                   rec_started := True\<rparr>"

text \<open>A camera switch during the session for which \<open>getUserMedia\<close> rejects.\<close>

definition failed_switch_world :: world where
  "failed_switch_world =
     switchCamera (st session_world)
       (Inl (JsError ''NotFoundError'' ''Requested device not found'')) session_world"


definition voiceless_render :: app_state where
  "voiceless_render = (st session_world)\<lparr>isVoicesLoaded := False\<rparr>"

definition voiceless_world :: world where
  "voiceless_world = listening_world\<lparr>voices := []\<rparr>"

definition heard_world :: world where
  "heard_world = recognition_onresult voiceless_render '' What do you see? '' voiceless_world"

text \<open>
  The mounted component with the camera off and a voice known, while an utterance
  (id 1, with its watchdog, timer 2) is being spoken.
\<close>

definition busy_world :: world where
  "busy_world =
     run [UtteranceStart 1]
       (speak (st mounted_world) ''Hello'' None (mounted_world\<lparr>voices := [english_voice]\<rparr>))"

section \<open>Callbacks are only called by whoever holds them\<close>

lemmas speech_defs = speak_plain_def speak_with_def call_opt_def stopSpeaking_def
  clearSpeechTimeout_def clearTimeout_def attemptSpeak_def setTimeout_def

lemma timer_callbacks_append [simp]:
  "timer_callbacks (xs @ ys) = timer_callbacks xs @ timer_callbacks ys"
  by (induction xs) (auto split: timer_action.splits option.splits)

lemma utterance_callbacks_append [simp]:
  "utterance_callbacks (xs @ ys) = utterance_callbacks xs @ utterance_callbacks ys"
  by (induction xs) (auto split: option.splits)

lemma timer_callbacks_filter: "set (timer_callbacks (filter P ts)) \<subseteq> set (timer_callbacks ts)"
  by (induction ts) (auto split: timer_action.splits option.splits)

lemma utterance_callbacks_filter:
  "set (utterance_callbacks (filter P us)) \<subseteq> set (utterance_callbacks us)"
  by (induction us) (auto split: option.splits)

lemma clearSpeechTimeout_held:
  "set (held_callbacks (clearSpeechTimeout w)) \<subseteq> set (held_callbacks w)"
  using timer_callbacks_filter
  by (auto simp: held_callbacks_def clearSpeechTimeout_def clearTimeout_def split: option.splits)

lemma clearSpeechTimeout_trace [simp]: "trace (clearSpeechTimeout w) = trace w"
  by (simp add: clearSpeechTimeout_def clearTimeout_def split: option.splits)

lemma stopSpeaking_held: "set (held_callbacks (stopSpeaking w)) \<subseteq> set (held_callbacks w)"
  using timer_callbacks_filter
  by (auto simp: held_callbacks_def stopSpeaking_def clearSpeechTimeout_def clearTimeout_def Let_def split: option.splits)

lemma stopSpeaking_trace [simp]: "trace (stopSpeaking w) = trace w"
  by (simp add: stopSpeaking_def Let_def)

lemma attemptSpeak_held:
  "attemptSpeak c text cb w = Inr w' \<Longrightarrow>
     set (held_callbacks w') \<subseteq> set (held_callbacks w) \<union> set_option cb"
  by (auto simp: held_callbacks_def attemptSpeak_def setTimeout_def Let_def split: if_splits option.splits)

lemma attemptSpeak_trace: "attemptSpeak c text cb w = Inr w' \<Longrightarrow> trace w' = trace w"
  by (auto simp: attemptSpeak_def setTimeout_def Let_def split: if_splits)


lemma speak_plain_trace: "trace (speak_plain c text w) = trace w @ [SpeakCalled text]"
  by (simp add: speech_defs Let_def split: option.splits)

lemma speak_with_held:
  assumes "\<And>f w. set (held_callbacks (k f w)) \<subseteq> set (held_callbacks w)"
  shows "set (held_callbacks (speak_with k c text cb w)) \<subseteq> set (held_callbacks w) \<union> set_option cb"
proof -
  let ?w = "record_event (SpeakCalled text) w"
  have h0: "held_callbacks ?w = held_callbacks w" by (simp add: held_callbacks_def)
  have call: "set (held_callbacks (call_opt k cb v)) \<subseteq> set (held_callbacks v)" for v
    using assms by (cases cb) (auto simp: call_opt_def)
  let ?w2 = "clearSpeechTimeout (stopSpeaking ?w)"
  have h2: "set (held_callbacks ?w2) \<subseteq> set (held_callbacks w)"
    using clearSpeechTimeout_held[of "stopSpeaking ?w"] stopSpeaking_held[of ?w] h0 by auto
  have h3: "held_callbacks ((setIsSpeaking False ?w2)\<lparr>utteranceRef := None\<rparr>) = held_callbacks ?w2"
    by (simp add: held_callbacks_def)
  show ?thesis
  proof (cases "attemptSpeak c text cb ?w2")
    case (Inl e)
    then show ?thesis
      using call[of ?w] call[of "(setIsSpeaking False ?w2)\<lparr>utteranceRef := None\<rparr>"] h0 h2 h3
      by (auto simp: speak_with_def Let_def)
  next
    case (Inr w3)
    then show ?thesis
      using call[of ?w] attemptSpeak_held[OF Inr] h0 h2
      by (auto simp: speak_with_def Let_def)
  qed
qed

lemma speak_plain_held: "set (held_callbacks (speak_plain c text w)) \<subseteq> set (held_callbacks w)"
  using speak_with_held[of "\<lambda>f w'. w'" c "text" None w] by (simp add: speak_plain_def)


lemma held_callbacks_st [simp]: "held_callbacks (w\<lparr>st := s\<rparr>) = held_callbacks w"
  by (simp add: held_callbacks_def)

lemma held_callbacks_trace [simp]: "held_callbacks (w\<lparr>trace := t\<rparr>) = held_callbacks w"
  by (simp add: held_callbacks_def)

lemma held_callbacks_rec_started [simp]: "held_callbacks (w\<lparr>rec_started := b\<rparr>) = held_callbacks w"
  by (simp add: held_callbacks_def)

lemma processQuestion_begin_held:
  "processQuestion_begin c q w = Finished w' \<or> processQuestion_begin c q w = Awaiting img w'
     \<Longrightarrow> set (held_callbacks w') \<subseteq> set (held_callbacks w)"
  using speak_plain_held[of c MSG_CAMERA_NOT_ACTIVE "setError (Some MSG_CAMERA_NOT_ACTIVE) w"]
        speak_plain_held[of c MSG_UNABLE_TO_CAPTURE "setError (Some MSG_UNABLE_TO_CAPTURE) w"]
  by (auto simp: processQuestion_begin_def split: if_splits option.splits)

lemma processQuestion_begin_trace:
  "processQuestion_begin c q w = Finished w' \<or> processQuestion_begin c q w = Awaiting img w'
     \<Longrightarrow> Invoked x \<in> set (trace w') \<Longrightarrow> Invoked x \<in> set (trace w)"
  by (auto simp: processQuestion_begin_def speak_plain_trace split: if_splits option.splits)

lemma recognition_start_held [simp]: "held_callbacks (snd (recognition_start w)) = held_callbacks w"
  by (simp add: recognition_start_def Let_def)

lemma recognition_start_trace [simp]:
  "trace (snd (recognition_start w)) = trace w @ [RecStartCalled]"
  by (simp add: recognition_start_def Let_def)

lemma startListening_callback_held:
  "set (held_callbacks (startListening_callback c w)) \<subseteq> set (held_callbacks w)"
proof -
  obtain r w1 where r: "recognition_start w = (r, w1)" by (cases "recognition_start w")
  then have h: "held_callbacks w1 = held_callbacks w"
    using recognition_start_held[of w] by simp
  show ?thesis
    using r h speak_plain_held[of c MSG_UNABLE_TO_START "setError (Some MSG_UNABLE_TO_START) w1"]
    by (auto simp: startListening_callback_def split: option.splits)
qed

lemma startListening_callback_trace:
  "Invoked x \<in> set (trace (startListening_callback c w)) \<Longrightarrow> Invoked x \<in> set (trace w)"
proof -
  assume a: "Invoked x \<in> set (trace (startListening_callback c w))"
  obtain r w1 where r: "recognition_start w = (r, w1)" by (cases "recognition_start w")
  then have h: "trace w1 = trace w @ [RecStartCalled]"
    using recognition_start_trace[of w] by simp
  show ?thesis
    using a r h
    by (auto simp: startListening_callback_def speak_plain_trace split: option.splits if_splits)
qed

lemma invoke_held: "set (held_callbacks (invoke f w)) \<subseteq> set (held_callbacks w)"
proof (cases f)
  case (UserCb n)
  then show ?thesis by simp
next
  case (StartRecognitionCb c)
  then show ?thesis
    using startListening_callback_held[of c "record_event (Invoked f) w"] by simp
next
  case (ProcessQuestionCb c q)
  then show ?thesis
    using processQuestion_begin_held[of c q "record_event (Invoked f) w"]
    by (auto split: async.splits)
qed

lemma invoke_trace:
  "Invoked x \<in> set (trace (invoke f w)) \<Longrightarrow> x = f \<or> Invoked x \<in> set (trace w)"
proof (cases f)
  case (UserCb n)
  then show "Invoked x \<in> set (trace (invoke f w)) \<Longrightarrow> ?thesis" by auto
next
  case (StartRecognitionCb c)
  then show "Invoked x \<in> set (trace (invoke f w)) \<Longrightarrow> ?thesis"
    using startListening_callback_trace[of x c "record_event (Invoked f) w"] by auto
next
  case (ProcessQuestionCb c q)
  then show "Invoked x \<in> set (trace (invoke f w)) \<Longrightarrow> ?thesis"
    using processQuestion_begin_trace[of c q "record_event (Invoked f) w" _ _ x]
    by (auto split: async.splits)
qed


lemma call_opt_invoke_held:
  "set (held_callbacks (call_opt invoke cb w)) \<subseteq> set (held_callbacks w)"
  using invoke_held by (cases cb) (auto simp: call_opt_def)

lemma call_opt_invoke_trace:
  "Invoked x \<in> set (trace (call_opt invoke cb w)) \<Longrightarrow> cb = Some x \<or> Invoked x \<in> set (trace w)"
  using invoke_trace by (cases cb) (auto simp: call_opt_def)

lemma speak_held:
  "set (held_callbacks (speak c text cb w)) \<subseteq> set (held_callbacks w) \<union> set_option cb"
  unfolding speak_def by (rule speak_with_held) (rule invoke_held)

lemma speak_trace:
  assumes "Invoked x \<in> set (trace (speak c text cb w))"
  shows "cb = Some x \<or> Invoked x \<in> set (trace w)"
proof -
  let ?w = "record_event (SpeakCalled text) w"
  let ?w2 = "clearSpeechTimeout (stopSpeaking ?w)"
  let ?w2' = "(setIsSpeaking False ?w2)\<lparr>utteranceRef := None\<rparr>"
  have t2: "trace ?w2' = trace w @ [SpeakCalled text]" by simp
  show ?thesis
  proof (cases "attemptSpeak c text cb ?w2")
    case (Inl e)
    then show ?thesis
      using assms call_opt_invoke_trace[of x cb ?w] call_opt_invoke_trace[of x cb ?w2'] t2
      by (auto simp: speak_def speak_with_def Let_def split: if_splits)
  next
    case (Inr w3)
    then show ?thesis
      using assms call_opt_invoke_trace[of x cb ?w] attemptSpeak_trace[OF Inr]
      by (auto simp: speak_def speak_with_def Let_def split: if_splits)
  qed
qed

lemma find_timer_callback:
  "find P ts = Some t \<Longrightarrow> t_action t = AttemptSpeak c text (Some cb) \<Longrightarrow> cb \<in> set (timer_callbacks ts)"
  by (induction ts) (auto split: if_splits timer_action.splits option.splits)

lemma find_utterance_callback:
  "find P us = Some u \<Longrightarrow> u_callback u = Some cb \<Longrightarrow> cb \<in> set (utterance_callbacks us)"
  by (induction us) (auto split: if_splits option.splits)

lemma clearTimeout_held: "set (held_callbacks (clearTimeout i w)) \<subseteq> set (held_callbacks w)"
  using timer_callbacks_filter by (auto simp: held_callbacks_def clearTimeout_def)

lemma drop_utterance_held: "set (held_callbacks (drop_utterance i w)) \<subseteq> set (held_callbacks w)"
  using utterance_callbacks_filter by (auto simp: held_callbacks_def drop_utterance_def)

lemma run_timer_untouched:
  assumes "find (\<lambda>t. t_id t = i) (timers w) = Some t" and "untouched x w"
  shows "untouched x (run_timer (t_action t) (clearTimeout i w))"
proof (cases "t_action t")
  case (AttemptSpeak c tx cb)
  have nx: "cb \<noteq> Some x"
    using assms find_timer_callback[OF assms(1), of c tx x] AttemptSpeak
    by (auto simp: untouched_def held_callbacks_def)
  have u0: "untouched x (clearTimeout i w)"
    using assms(2) clearTimeout_held[of i w] by (auto simp: untouched_def clearTimeout_def)
  show ?thesis
  proof (cases "attemptSpeak c tx cb (clearTimeout i w)")
    case (Inl e)
    then show ?thesis using u0 AttemptSpeak by (simp add: run_timer_def)
  next
    case (Inr w')
    then show ?thesis
      using u0 AttemptSpeak nx attemptSpeak_held[OF Inr] attemptSpeak_trace[OF Inr]
      by (cases cb) (auto simp: run_timer_def untouched_def)
  qed
next
  case (Watchdog c)
  then show ?thesis
    using assms(2) clearTimeout_held[of i w]
    by (auto simp: run_timer_def untouched_def clearTimeout_def held_callbacks_def)
next
  case RestartRecognition
  have u0: "untouched x (clearTimeout i w)"
    using assms(2) clearTimeout_held[of i w] by (auto simp: untouched_def clearTimeout_def)
  then show ?thesis
    using RestartRecognition by (auto simp: run_timer_def untouched_def)
qed

lemma final_event_untouched:
  assumes "find (\<lambda>u. u_id u = i) (synth_queue w @ synth_cancelled w) = Some u"
    and "untouched x w"
  shows "untouched x (call_opt invoke (u_callback u)
           ((setIsSpeaking False (drop_utterance i w))\<lparr>utteranceRef := None\<rparr>))"
proof -
  let ?w1 = "(setIsSpeaking False (drop_utterance i w))\<lparr>utteranceRef := None\<rparr>"
  have nx: "u_callback u \<noteq> Some x"
    using assms find_utterance_callback[OF assms(1), of x]
    by (auto simp: untouched_def held_callbacks_def)
  have h1: "set (held_callbacks ?w1) \<subseteq> set (held_callbacks w)"
    using drop_utterance_held[of i w] by (simp add: held_callbacks_def)
  have t1: "trace ?w1 = trace w" by (simp add: drop_utterance_def)
  show ?thesis
    using assms(2) nx h1 t1 call_opt_invoke_held[of "u_callback u" ?w1]
      call_opt_invoke_trace[of x "u_callback u" ?w1]
    by (auto simp: untouched_def)
qed

lemma step_untouched: "untouched x w \<Longrightarrow> untouched x (step e w)"
proof (cases e)
  case (TimerFires i)
  then show "untouched x w \<Longrightarrow> ?thesis"
    using run_timer_untouched[of i w _ x] by (auto split: option.splits)
next
  case (UtteranceStart i)
  then show "untouched x w \<Longrightarrow> ?thesis"
    by (auto simp: utterance_onstart_def untouched_def split: option.splits)
next
  case (UtteranceEnd i)
  then show "untouched x w \<Longrightarrow> ?thesis"
    using final_event_untouched[of i w _ x]
    by (auto simp: utterance_onend_def split: option.splits)
next
  case (UtteranceError i code)
  then show "untouched x w \<Longrightarrow> ?thesis"
    using final_event_untouched[of i w _ x]
    by (auto simp: utterance_onerror_def split: option.splits)
qed

lemma run_untouched: "untouched x w \<Longrightarrow> untouched x (run es w)"
  by (induction es arbitrary: w) (auto intro: step_untouched)



section \<open>What \<open>speak\<close> without a callback leaves alone\<close>

lemma speak_None: "speak c text None w = speak_plain c text w"
  by (simp add: speak_def speak_plain_def speak_with_def call_opt_def Let_def split: sum.splits)

lemma speak_plain_st:
  "st (speak_plain c text w) = (st w)\<lparr>isSpeaking := isSpeaking (st (speak_plain c text w))\<rparr>"
  by (simp add: speech_defs Let_def split: option.splits)

lemma speak_plain_devices:
  "streams (speak_plain c text w) = streams w \<and> videoRef (speak_plain c text w) = videoRef w
   \<and> canvasRef (speak_plain c text w) = canvasRef w
   \<and> recognitionRef (speak_plain c text w) = recognitionRef w
   \<and> rec_started (speak_plain c text w) = rec_started w
   \<and> OPENAI_API_KEY (speak_plain c text w) = OPENAI_API_KEY w
   \<and> hasSpeechRecognition (speak_plain c text w) = hasSpeechRecognition w
   \<and> hasSpeechSynthesis (speak_plain c text w) = hasSpeechSynthesis w"
  by (simp add: speech_defs Let_def split: option.splits)

lemma speak_plain_restart_timers:
  "set (restart_timers (speak_plain c text w)) \<subseteq> set (restart_timers w)"
  by (auto simp: restart_timers_def speech_defs Let_def split: option.splits if_splits)

lemma speak_plain_error: "error (st (speak_plain c m v)) = error (st v)"
  by (subst speak_plain_st) simp

lemma speak_plain_microphonePermission:
  "microphonePermission (st (speak_plain c m v)) = microphonePermission (st v)"
  by (subst speak_plain_st) simp

lemma speak_plain_queue:
  "can_speak c w \<Longrightarrow> trim text \<noteq> [] \<Longrightarrow>
     map u_text (synth_queue (speak_plain c text w)) = [trim text]"
  by (auto simp: can_speak_def speech_defs Let_def split: option.splits)

lemma trim_messages:
  "trim MSG_DID_NOT_CATCH = MSG_DID_NOT_CATCH"
  "trim MSG_MIC_DENIED = MSG_MIC_DENIED"
  "trim MSG_NO_MICROPHONE = MSG_NO_MICROPHONE"
  "trim MSG_NETWORK = MSG_NETWORK"
  "trim MSG_RECOGNITION_FAILED = MSG_RECOGNITION_FAILED"
  by (simp_all add: trim_def is_whitespace_def MSG_DID_NOT_CATCH_def MSG_MIC_DENIED_def
      MSG_NO_MICROPHONE_def MSG_NETWORK_def MSG_RECOGNITION_FAILED_def)



section \<open>Claim C1: a completion callback can be lost\<close>

lemma first_call_holds_callback: "held_callbacks first_call_world = [UserCb 1]"
  unfolding first_call_world_def by code_simp

lemma second_call_untouched: "untouched (UserCb 1) second_call_world"
  unfolding second_call_world_def first_call_world_def by code_simp

text \<open>
  Claim C1 says that the callback of every \<open>speak(text, cb)\<close> is called exactly once. In
  the code it is not: while no voice is known, the first call passes the guard, stores its
  callback in the 100 ms retry of \<open>attemptSpeak\<close> and returns without calling it; the
  second call clears that timer (\<open>speechTimeoutRef\<close>, lines 270--272) and with it the only
  reference to the first callback. After the two calls the first callback has not been
  called, and whatever timers fire and whatever the synthesis engine reports afterwards,
  it is never called.
\<close>

theorem superseded_speak_callback_never_invoked:
  "held_callbacks first_call_world = [UserCb 1]
   \<and> Invoked (UserCb 1) \<notin> set (trace first_call_world)
   \<and> (\<forall>events. Invoked (UserCb 1) \<notin> set (trace (run events second_call_world)))"
proof -
  have a: "held_callbacks first_call_world = [UserCb 1]"
    by (rule first_call_holds_callback)
  have b: "Invoked (UserCb 1) \<notin> set (trace first_call_world)"
    unfolding first_call_world_def by code_simp
  have c: "Invoked (UserCb 1) \<notin> set (trace (run events second_call_world))" for events
    using run_untouched[OF second_call_untouched, of events] by (simp add: untouched_def)
  show ?thesis using a b c by blast
qed

section \<open>Claim C2: a failed camera switch\<close>

lemma session_live_streams: "live_streams session_world = {1}"
  by (auto simp: live_streams_def session_world_def mounted_world_def)

lemma failed_switch_stream: "map_option live (streams failed_switch_world 1) = Some False"
  unfolding failed_switch_world_def by code_simp

lemma failed_switch_no_other_stream: "h \<noteq> 1 \<Longrightarrow> streams failed_switch_world h = None"
  by (simp add: failed_switch_world_def switchCamera_def switchCamera_begin_def
      switchCamera_resume_def session_world_def mounted_world_def stop_tracks_def Let_def
      toggled_def initial_state_def speak_None speak_plain_devices)

text \<open>
  Claim C2 says that after a failed \<open>switchCamera\<close> exactly one of the two facings has
  an active capture session and the previous facing value is restored. The code stops
  the tracks of the running stream before it asks for the new one (line 545) and its
  \<open>catch\<close> only speaks and writes the facing back (lines 565--569): with the back camera
  running as stream 1 and \<open>getUserMedia\<close> rejecting, the facing is \<open>environment\<close> again,
  but no stream is live any more, while \<open>isCameraActive\<close> is still true and
  \<open>mediaStream\<close> still names the stopped stream.
\<close>

theorem failed_switch_leaves_no_live_stream:
  "live_streams session_world = {1}
   \<and> live_streams failed_switch_world = {}
   \<and> cameraMode (st failed_switch_world) = cameraMode (st session_world)
   \<and> isCameraActive (st failed_switch_world)
   \<and> mediaStream (st failed_switch_world) = Some 1"
proof -
  have none_live: "live_streams failed_switch_world = {}"
  proof -
    have "\<not> (\<exists>s. streams failed_switch_world h = Some s \<and> live s)" for h
      using failed_switch_stream failed_switch_no_other_stream[of h] by (cases "h = 1") auto
    then show ?thesis by (simp add: live_streams_def)
  qed
  have rest: "cameraMode (st failed_switch_world) = cameraMode (st session_world)
      \<and> isCameraActive (st failed_switch_world) \<and> mediaStream (st failed_switch_world) = Some 1"
    unfolding failed_switch_world_def by code_simp
  show ?thesis using session_live_streams none_live rest by simp
qed

section \<open>Claim C3: the watchdog\<close>

lemma watchdog_reads_captured_flag:
  "\<not> isSpeaking c \<Longrightarrow> run_timer (Watchdog c) w = w"
  by (simp add: run_timer_def)

text \<open>
  Claim C3 says that a watchdog of \<open>max(100 ms per character, 5000 ms)\<close> is armed for
  every utterance and resets the speaking flag when the platform never signals
  completion. The timer is armed with that delay, but its body tests the \<open>isSpeaking\<close>
  captured by the render that created \<open>speak\<close> (line 335), not the current flag. For
  \<open>speak('Hello')\<close> called from a render in which nothing was being spoken: the utterance
  (id 2) is queued with a watchdog (timer 3) of 5000 ms; the engine reports \<open>start\<close>, the
  flag becomes true; no \<open>end\<close> or \<open>error\<close> arrives; the watchdog fires and the flag is
  still true, with no timer left to reset it.
\<close>

theorem watchdog_leaves_speaking_flag_set:
  "map u_id (synth_queue spoken_world) = [2]
   \<and> map t_id (timers spoken_world) = [3]
   \<and> map t_delay (timers spoken_world) = [max (length ''Hello'' * 100) 5000]
   \<and> map t_action (timers spoken_world) = [Watchdog (st session_world)]
   \<and> isSpeaking (st (run [UtteranceStart 2] spoken_world))
   \<and> isSpeaking (st (run [UtteranceStart 2, TimerFires 3] spoken_world))
   \<and> timers (run [UtteranceStart 2, TimerFires 3] spoken_world) = []"
  unfolding spoken_world_def by code_simp

section \<open>Claim C4: restart of the recogniser after an error\<close>

text \<open>
  Claim C4 says that listening restarts only after a clean end, never after an end that
  follows an error, whatever the error code. The \<open>end\<close> handler tests \<open>!error\<close>, the
  display error captured by the render whose effect installed the handlers (line 614):
  \<open>aborted\<close> sets no error at all (lines 650--652), and for the other codes \<open>setError\<close>
  does not change the captured value. With the session listening, an \<open>error\<close> event
  (\<open>aborted\<close>, or \<open>no-speech\<close>) followed by the \<open>end\<close> event of the same attempt schedules
  the restart (timer 2, 500 ms), and when it fires \<open>recognition.start()\<close> is called and
  the recogniser runs again.
\<close>

theorem restart_after_error_terminated_end:
  "map t_action (timers (recognition_end_event (st session_world)
       (recognition_onerror (st session_world) ''aborted'' listening_world)))
     = [RestartRecognition]
   \<and> map t_delay (timers (recognition_end_event (st session_world)
       (recognition_onerror (st session_world) ''aborted'' listening_world))) = [500]
   \<and> trace (run [TimerFires 2] (recognition_end_event (st session_world)
       (recognition_onerror (st session_world) ''aborted'' listening_world)))
     = [RecStartCalled]
   \<and> rec_started (run [TimerFires 2] (recognition_end_event (st session_world)
       (recognition_onerror (st session_world) ''aborted'' listening_world)))
   \<and> error (st (recognition_onerror (st session_world) ''no-speech'' listening_world))
     = Some MSG_NO_SPEECH
   \<and> trace (run [TimerFires 2] (recognition_end_event (st session_world)
       (recognition_onerror (st session_world) ''no-speech'' listening_world)))
     = [RecStartCalled]
   \<and> rec_started (run [TimerFires 2] (recognition_end_event (st session_world)
       (recognition_onerror (st session_world) ''no-speech'' listening_world)))"
  unfolding listening_world_def by code_simp

section \<open>Claim C5: refused turns\<close>




section \<open>Claim C6: short and long transcripts\<close>


lemma clearSpeechTimeout_st [simp]: "st (clearSpeechTimeout w) = st w"
  by (simp add: clearSpeechTimeout_def clearTimeout_def split: option.splits)

lemma stopSpeaking_st: "st (stopSpeaking w) = (st w)\<lparr>isSpeaking := isSpeaking (st (stopSpeaking w))\<rparr>"
  by (simp add: stopSpeaking_def Let_def)









lemma captureImage_record [simp]:
  "captureImage (w\<lparr>trace := t\<rparr>) = captureImage w"
  "captureImage (w\<lparr>st := s\<rparr>) = captureImage w"
  "captureImage (w\<lparr>utteranceRef := u\<rparr>) = captureImage w"
  by (simp_all add: captureImage_def split: option.splits)












lemma superseded_question_never_processed:
  "Invoked (ProcessQuestionCb voiceless_render ''What do you see?'')
     \<notin> set (trace (run events (speak voiceless_render ''Camera started.'' None heard_world)))"
proof -
  have "untouched (ProcessQuestionCb voiceless_render ''What do you see?'')
        (speak voiceless_render ''Camera started.'' None heard_world)"
    unfolding heard_world_def voiceless_world_def voiceless_render_def listening_world_def
    by code_simp
  from run_untouched[OF this, of events] show ?thesis by (simp add: untouched_def)
qed





section \<open>Claim C7: classification of recognition errors\<close>

lemma recognition_onerror_cases:
  "recognition_onerror c code w =
     (case error_switch code of
        (errorMessage, shouldSpeak, deny) \<Rightarrow>
          setIsProcessing False
            (let w2 = (if deny then setMicrophonePermission (Some denied) (setIsListening False w)
                       else setIsListening False w)
             in if errorMessage \<noteq> [] then
                  (if shouldSpeak then speak_plain c errorMessage (setError (Some errorMessage) w2)
                   else setError (Some errorMessage) w2)
                else w2))"
  by (simp add: recognition_onerror_def Let_def speak_None split: prod.splits)

lemmas onerror_simps = recognition_onerror_cases error_switch_def speak_plain_trace
  speak_plain_error speak_plain_microphonePermission
  MSG_MIC_DENIED_def MSG_NO_SPEECH_def MSG_NO_MICROPHONE_def MSG_NETWORK_def
  MSG_RECOGNITION_FAILED_def

lemma onerror_spoken_aux:
  assumes "error_switch code = (m, True, d)" "m \<noteq> []" "trim m = m" "can_speak c w"
  shows "map u_text (synth_queue (recognition_onerror c code w)) = [m]"
proof -
  let ?w2 = "if d then setMicrophonePermission (Some denied) (setIsListening False w)
             else setIsListening False w"
  have cs: "can_speak c (setError (Some m) ?w2)"
    using assms(4) by (simp add: can_speak_def)
  have "recognition_onerror c code w
      = setIsProcessing False (speak_plain c m (setError (Some m) ?w2))"
    using assms(1,2) by (simp add: recognition_onerror_cases)
  then show ?thesis
    using speak_plain_queue[OF cs, of m] assms(2,3) by simp
qed

lemma onerror_spoken:
  assumes "can_speak c w" "code \<noteq> ''no-speech''" "code \<noteq> ''aborted''"
  shows "map u_text (synth_queue (recognition_onerror c code w)) = [fst (error_switch code)]"
proof -
  have ne: "MSG_MIC_DENIED \<noteq> []" "MSG_NO_MICROPHONE \<noteq> []" "MSG_NETWORK \<noteq> []"
    "MSG_RECOGNITION_FAILED \<noteq> []"
    by (simp_all add: MSG_MIC_DENIED_def MSG_NO_MICROPHONE_def MSG_NETWORK_def
        MSG_RECOGNITION_FAILED_def)
  consider (deny) "code = ''not-allowed'' \<or> code = ''service-not-allowed''"
    | (audio) "code = ''audio-capture''" | (net) "code = ''network''"
    | (other) "code \<notin> {''not-allowed'', ''service-not-allowed'', ''no-speech'',
                        ''audio-capture'', ''network'', ''aborted''}"
    using assms(2,3) by auto
  then show ?thesis
  proof cases
    case deny
    then have e: "error_switch code = (MSG_MIC_DENIED, True, True)"
      by (auto simp: error_switch_def)
    show ?thesis
      using onerror_spoken_aux[OF e ne(1) trim_messages(2) assms(1)] e by simp
  next
    case audio
    then have e: "error_switch code = (MSG_NO_MICROPHONE, True, False)"
      by (simp add: error_switch_def)
    show ?thesis
      using onerror_spoken_aux[OF e ne(2) trim_messages(3) assms(1)] e by simp
  next
    case net
    then have e: "error_switch code = (MSG_NETWORK, True, False)"
      by (simp add: error_switch_def)
    show ?thesis
      using onerror_spoken_aux[OF e ne(3) trim_messages(4) assms(1)] e by simp
  next
    case other
    then have e: "error_switch code = (MSG_RECOGNITION_FAILED, True, False)"
      by (simp add: error_switch_def)
    show ?thesis
      using onerror_spoken_aux[OF e ne(4) trim_messages(5) assms(1)] e by simp
  qed
qed

lemma onerror_silent:
  assumes "code = ''no-speech'' \<or> code = ''aborted''"
  shows "synth_queue (recognition_onerror c code w) = synth_queue w
     \<and> synth_cancelled (recognition_onerror c code w) = synth_cancelled w"
  using assms by (auto simp: recognition_onerror_cases error_switch_def MSG_NO_SPEECH_def)

text \<open>
  Claim C7: for every error code, \<open>recognition.onerror\<close> follows the table.
  \<open>not-allowed\<close> and \<open>service-not-allowed\<close>: the message is recorded and handed to
  \<open>speak\<close>, and the microphone permission becomes \<open>denied\<close>. \<open>no-speech\<close>: the message is
  recorded, \<open>speak\<close> is not called, the permission is as before. \<open>audio-capture\<close>,
  \<open>network\<close> and every code not listed: the message is recorded and handed to \<open>speak\<close>,
  the permission is as before. \<open>aborted\<close>: no message is recorded, \<open>speak\<close> is not
  called, the permission is as before.
\<close>

theorem onerror_classification:
  "(code = ''not-allowed'' \<or> code = ''service-not-allowed'' \<longrightarrow>
      trace (recognition_onerror c code w) = trace w @ [SpeakCalled MSG_MIC_DENIED]
      \<and> error (st (recognition_onerror c code w)) = Some MSG_MIC_DENIED
      \<and> microphonePermission (st (recognition_onerror c code w)) = Some denied)
   \<and> (code = ''no-speech'' \<longrightarrow>
      trace (recognition_onerror c code w) = trace w
      \<and> error (st (recognition_onerror c code w)) = Some MSG_NO_SPEECH
      \<and> microphonePermission (st (recognition_onerror c code w)) = microphonePermission (st w))
   \<and> (code = ''audio-capture'' \<longrightarrow>
      trace (recognition_onerror c code w) = trace w @ [SpeakCalled MSG_NO_MICROPHONE]
      \<and> error (st (recognition_onerror c code w)) = Some MSG_NO_MICROPHONE
      \<and> microphonePermission (st (recognition_onerror c code w)) = microphonePermission (st w))
   \<and> (code = ''network'' \<longrightarrow>
      trace (recognition_onerror c code w) = trace w @ [SpeakCalled MSG_NETWORK]
      \<and> error (st (recognition_onerror c code w)) = Some MSG_NETWORK
      \<and> microphonePermission (st (recognition_onerror c code w)) = microphonePermission (st w))
   \<and> (code = ''aborted'' \<longrightarrow>
      trace (recognition_onerror c code w) = trace w
      \<and> error (st (recognition_onerror c code w)) = error (st w)
      \<and> microphonePermission (st (recognition_onerror c code w)) = microphonePermission (st w))
   \<and> (code \<notin> {''not-allowed'', ''service-not-allowed'', ''no-speech'', ''audio-capture'',
                ''network'', ''aborted''} \<longrightarrow>
      trace (recognition_onerror c code w) = trace w @ [SpeakCalled MSG_RECOGNITION_FAILED]
      \<and> error (st (recognition_onerror c code w)) = Some MSG_RECOGNITION_FAILED
      \<and> microphonePermission (st (recognition_onerror c code w)) = microphonePermission (st w))
   \<and> (can_speak c w \<and> code \<noteq> ''no-speech'' \<and> code \<noteq> ''aborted'' \<longrightarrow>
      map u_text (synth_queue (recognition_onerror c code w)) = [fst (error_switch code)])
   \<and> (code = ''no-speech'' \<or> code = ''aborted'' \<longrightarrow>
      synth_queue (recognition_onerror c code w) = synth_queue w
      \<and> synth_cancelled (recognition_onerror c code w) = synth_cancelled w)"
proof (intro conjI impI)
  assume "code = ''not-allowed'' \<or> code = ''service-not-allowed''"
  then show "trace (recognition_onerror c code w) = trace w @ [SpeakCalled MSG_MIC_DENIED]"
    and "error (st (recognition_onerror c code w)) = Some MSG_MIC_DENIED"
    and "microphonePermission (st (recognition_onerror c code w)) = Some denied"
    by (auto simp: onerror_simps)
next
  assume "code = ''no-speech''"
  then show "trace (recognition_onerror c code w) = trace w"
    and "error (st (recognition_onerror c code w)) = Some MSG_NO_SPEECH"
    and "microphonePermission (st (recognition_onerror c code w)) = microphonePermission (st w)"
    by (auto simp: onerror_simps)
next
  assume "code = ''audio-capture''"
  then show "trace (recognition_onerror c code w) = trace w @ [SpeakCalled MSG_NO_MICROPHONE]"
    and "error (st (recognition_onerror c code w)) = Some MSG_NO_MICROPHONE"
    and "microphonePermission (st (recognition_onerror c code w)) = microphonePermission (st w)"
    by (auto simp: onerror_simps)
next
  assume "code = ''network''"
  then show "trace (recognition_onerror c code w) = trace w @ [SpeakCalled MSG_NETWORK]"
    and "error (st (recognition_onerror c code w)) = Some MSG_NETWORK"
    and "microphonePermission (st (recognition_onerror c code w)) = microphonePermission (st w)"
    by (auto simp: onerror_simps)
next
  assume "code = ''aborted''"
  then show "trace (recognition_onerror c code w) = trace w"
    and "error (st (recognition_onerror c code w)) = error (st w)"
    and "microphonePermission (st (recognition_onerror c code w)) = microphonePermission (st w)"
    by (auto simp: onerror_simps)
next
  assume "code \<notin> {''not-allowed'', ''service-not-allowed'', ''no-speech'', ''audio-capture'',
                ''network'', ''aborted''}"
  then show "trace (recognition_onerror c code w) = trace w @ [SpeakCalled MSG_RECOGNITION_FAILED]"
    and "error (st (recognition_onerror c code w)) = Some MSG_RECOGNITION_FAILED"
    and "microphonePermission (st (recognition_onerror c code w)) = microphonePermission (st w)"
    by (auto simp: onerror_simps)
next
  assume "can_speak c w \<and> code \<noteq> ''no-speech'' \<and> code \<noteq> ''aborted''"
  then show "map u_text (synth_queue (recognition_onerror c code w)) = [fst (error_switch code)]"
    using onerror_spoken[of c w code] by simp
next
  assume "code = ''no-speech'' \<or> code = ''aborted''"
  then show "synth_queue (recognition_onerror c code w) = synth_queue w"
    and "synth_cancelled (recognition_onerror c code w) = synth_cancelled w"
    using onerror_silent[of code c w] by simp_all
qed


theorem onerror_classification_witness:
  "microphonePermission (st (recognition_onerror (st session_world) ''not-allowed'' listening_world))
     = Some denied
   \<and> trace (recognition_onerror (st session_world) ''service-not-allowed'' listening_world)
     = [SpeakCalled MSG_MIC_DENIED]
   \<and> trace (recognition_onerror (st session_world) ''no-speech'' listening_world) = []
   \<and> error (st (recognition_onerror (st session_world) ''no-speech'' listening_world))
     = Some MSG_NO_SPEECH
   \<and> trace (recognition_onerror (st session_world) ''audio-capture'' listening_world)
     = [SpeakCalled MSG_NO_MICROPHONE]
   \<and> trace (recognition_onerror (st session_world) ''network'' listening_world)
     = [SpeakCalled MSG_NETWORK]
   \<and> trace (recognition_onerror (st session_world) ''aborted'' listening_world) = []
   \<and> error (st (recognition_onerror (st session_world) ''aborted'' listening_world)) = None
   \<and> trace (recognition_onerror (st session_world) ''language-not-supported'' listening_world)
     = [SpeakCalled MSG_RECOGNITION_FAILED]
   \<and> microphonePermission (st (recognition_onerror (st session_world) ''language-not-supported''
         listening_world)) = Some granted
   \<and> map u_text (synth_queue (recognition_onerror (st session_world) ''network''
         listening_world)) = [MSG_NETWORK]
   \<and> synth_queue (recognition_onerror (st session_world) ''no-speech'' listening_world) = []"
  using onerror_classification[of "''not-allowed''" "st session_world" listening_world]
    onerror_classification[of "''service-not-allowed''" "st session_world" listening_world]
    onerror_classification[of "''no-speech''" "st session_world" listening_world]
    onerror_classification[of "''audio-capture''" "st session_world" listening_world]
    onerror_classification[of "''network''" "st session_world" listening_world]
    onerror_classification[of "''aborted''" "st session_world" listening_world]
    onerror_classification[of "''language-not-supported''" "st session_world" listening_world]
  by (simp add: listening_world_def session_world_def mounted_world_def initial_state_def
      can_speak_def error_switch_def)

section \<open>Claim C8: failures of the vision request\<close>

lemma toString_502: "toString_nat 502 = ''502''"
  by code_simp

lemma toString_429: "toString_nat 429 = ''429''"
  by code_simp

lemma analyze_unconfigured:
  "key = None \<or> key = Some [] \<Longrightarrow>
     analyzeImageWithOpenAI key net img q = ([], Inl (JsError ''Error'' MSG_KEY_NOT_CONFIGURED))"
  by (auto simp: analyzeImageWithOpenAI_def)

lemma analyze_single_request: "length (fst (analyzeImageWithOpenAI key net img q)) \<le> 1"
  by (auto simp: analyzeImageWithOpenAI_def Let_def split: option.splits)

lemma includes_str_append: "includes_str (a @ b @ c) b"
proof (induction a)
  case Nil
  have sw: "startsWith (b @ c) b" for c
    by (induction b) auto
  show ?case
    using sw[of c] by (cases "b @ c") auto
next
  case (Cons x a)
  then show ?case by simp
qed

lemma analyze_transport_error:
  assumes "key = Some k" "k \<noteq> []" "net (hd (fst (analyzeImageWithOpenAI key net img q))) = FetchResponse r"
    "\<not> ok r" "body r = Inr errorData"
  shows "\<exists>m. snd (analyzeImageWithOpenAI key net img q) = Inl (JsError ''Error'' m)
     \<and> includes_str m (toString_nat (status r)) \<and> includes_str m (upstream_text r errorData)"
proof -
  let ?m = "''API request failed: '' @ toString_nat (status r) @ '' - '' @ upstream_text r errorData"
  have "snd (analyzeImageWithOpenAI key net img q) = Inl (JsError ''Error'' ?m)"
    using assms by (simp add: analyzeImageWithOpenAI_def Let_def)
  moreover have "includes_str ?m (toString_nat (status r))"
    using includes_str_append[of "''API request failed: ''" "toString_nat (status r)"
        "'' - '' @ upstream_text r errorData"] by simp
  moreover have "includes_str ?m (upstream_text r errorData)"
    using includes_str_append[of "''API request failed: '' @ toString_nat (status r) @ '' - ''"
        "upstream_text r errorData" "[]"] by simp
  ultimately show ?thesis by blast
qed

lemma analyze_json_error_body:
  "snd (analyzeImageWithOpenAI (Some ''sk-test'') rate_limited ''data:image/jpeg;base64,AAAA''
          ''What is this?'')
     = Inl (JsError ''Error'' ''API request failed: 429 - Rate limit reached'')"
  by (simp add: analyzeImageWithOpenAI_def rate_limited_def ok_def toString_429 upstream_text_def)

text \<open>
  Claim C8 says, among other things, that a reply that is not 2xx fails with an error
  whose message includes the upstream status and the upstream error text. The code builds
  that message only after \<open>await response.json()\<close> (line 241) has parsed the body of the
  error reply; when the body is not JSON, as for a \<open>502 Bad Gateway\<close> page, the parser's
  \<open>SyntaxError\<close> is what the function throws, and its message carries neither the status
  nor the status text. (Without a credential no request is sent, no call sends more than
  one request, and an error reply with a JSON body gives the message with status and
  text: lemmas \<open>analyze_unconfigured\<close>, \<open>analyze_single_request\<close> and
  \<open>analyze_transport_error\<close>.)
\<close>

theorem error_status_lost_when_body_is_not_json:
  "snd (analyzeImageWithOpenAI (Some ''sk-test'') bad_gateway ''data:image/jpeg;base64,AAAA''
          ''What is this?'')
     = Inl (JsError ''SyntaxError'' ''Unexpected token < in JSON at position 0'')
   \<and> \<not> includes_str ''Unexpected token < in JSON at position 0'' (toString_nat 502)
   \<and> \<not> includes_str ''Unexpected token < in JSON at position 0'' ''Bad Gateway''"
  by (simp add: analyzeImageWithOpenAI_def bad_gateway_def ok_def toString_502)

section \<open>Claim C9: the processing flag after \<open>processQuestion\<close>\<close>

text \<open>
  Claim C9: \<open>processQuestion\<close> returns before its \<open>await\<close> exactly when the camera is
  inactive or no frame could be captured, and then the processing flag is false; and
  whenever it is resumed with the outcome of the analysis, an answer or an error, the
  processing flag is false when it completes, whatever happened in between.
\<close>

theorem processQuestion_clears_isProcessing:
  "(processQuestion_begin c question w = Finished w' \<longrightarrow> \<not> isProcessing (st w'))
   \<and> ((\<exists>v. processQuestion_begin c question w = Finished v)
        \<longleftrightarrow> (\<not> isCameraActive c \<or> captureImage w = None \<or> captureImage w = Some []))
   \<and> \<not> isProcessing (st (processQuestion_resume c (Inr response) w2))
   \<and> \<not> isProcessing (st (processQuestion_resume c (Inl e) w2))"
  by (auto simp: processQuestion_begin_def processQuestion_resume_def Let_def
      split: option.splits if_splits)

theorem processQuestion_clears_isProcessing_witness:
  "(\<exists>v. processQuestion_begin (st mounted_world) ''What is this?'' mounted_world = Finished v
        \<and> \<not> isProcessing (st v))
   \<and> (\<exists>v. processQuestion_begin (st session_world) ''What is this?''
              (session_world\<lparr>videoRef := None\<rparr>) = Finished v \<and> \<not> isProcessing (st v))
   \<and> \<not> isProcessing (st (processQuestion_resume (st session_world) (Inr ''A red mug.'')
          listening_world))
   \<and> \<not> isProcessing (st (processQuestion_resume (st session_world)
          (Inl (JsError ''Error'' ''API request failed: 500 - Internal Server Error''))
          listening_world))"
proof -
  obtain v1 where v1: "processQuestion_begin (st mounted_world) ''What is this?'' mounted_world
      = Finished v1"
    by (simp add: processQuestion_begin_def mounted_world_def initial_state_def)
  obtain v2 where v2: "processQuestion_begin (st session_world) ''What is this?''
      (session_world\<lparr>videoRef := None\<rparr>) = Finished v2"
    by (simp add: processQuestion_begin_def session_world_def mounted_world_def
        initial_state_def captureImage_def)
  show ?thesis
    using v1 v2
      processQuestion_clears_isProcessing[of "st mounted_world" "''What is this?''"
        mounted_world v1 "''A red mug.''" listening_world
        "JsError ''Error'' ''API request failed: 500 - Internal Server Error''"]
      processQuestion_clears_isProcessing[of "st session_world" "''What is this?''"
        "session_world\<lparr>videoRef := None\<rparr>" v2 "''A red mug.''" listening_world
        "JsError ''Error'' ''API request failed: 500 - Internal Server Error''"]
    by blast
qed

section \<open>Claim C10: switching the camera while it is inactive\<close>

lemma speak_plain_st_exact:
  "trim text \<noteq> [] \<Longrightarrow>
   st (speak_plain c text w)
     = (st w)\<lparr>isSpeaking := (isSpeaking (st w)
          \<and> \<not> (speechEnabled c \<and> hasSpeechSynthesis w \<and> microphonePermission c = Some granted))\<rparr>"
  by (auto simp: speech_defs Let_def split: option.splits)

lemma speak_plain_blocked:
  "\<not> (speechEnabled c \<and> hasSpeechSynthesis w \<and> microphonePermission c = Some granted) \<Longrightarrow>
     speak_plain c text w = record_event (SpeakCalled text) w"
  by (auto simp: speak_plain_def speak_with_def call_opt_def Let_def)

lemma speak_plain_cancels:
  "can_speak c w \<Longrightarrow> trim text \<noteq> [] \<Longrightarrow>
     synth_cancelled (speak_plain c text w) = synth_cancelled w @ synth_queue w"
  by (auto simp: can_speak_def speech_defs Let_def split: option.splits)


lemma switchCamera_inactive_returns:
  "\<not> isCameraActive c \<Longrightarrow> switchCamera_begin c w = Finished (switchCamera c outcome w)"
  by (simp add: switchCamera_def switchCamera_begin_def Let_def)

lemma busy_world_inactive: "\<not> isCameraActive (st busy_world)"
  unfolding busy_world_def by code_simp

text \<open>
  Claim C10 says that \<open>switchCamera\<close> with the camera inactive changes only
  \<open>cameraMode\<close> and leaves all other session state as it was. The announcement goes
  through \<open>speak\<close>, which calls \<open>stopSpeaking\<close> first (line 268): with the camera off and
  ``Hello'' being spoken (speaking flag set, watchdog timer 2 pending), the call returns
  without awaiting, the speaking flag is false afterwards, the utterance in flight is
  cancelled, its watchdog is gone and the announcement is queued with a watchdog of its
  own.
\<close>

theorem inactive_switch_resets_speech:
  "\<not> isCameraActive (st busy_world)
   \<and> isSpeaking (st busy_world)
   \<and> map u_text (synth_queue busy_world) = [''Hello'']
   \<and> map t_id (timers busy_world) = [2]
   \<and> switchCamera_begin (st busy_world) busy_world
       = Finished (switchCamera (st busy_world) (Inr ()) busy_world)
   \<and> \<not> isSpeaking (st (switchCamera (st busy_world) (Inr ()) busy_world))
   \<and> map u_text (synth_cancelled (switchCamera (st busy_world) (Inr ()) busy_world)) = [''Hello'']
   \<and> map u_text (synth_queue (switchCamera (st busy_world) (Inr ()) busy_world))
       = [''Camera mode set to front camera.'']
   \<and> map t_id (timers (switchCamera (st busy_world) (Inr ()) busy_world)) = [4]"
proof -
  have a: "switchCamera_begin (st busy_world) busy_world
       = Finished (switchCamera (st busy_world) (Inr ()) busy_world)"
    by (rule switchCamera_inactive_returns[OF busy_world_inactive])
  have b: "\<not> isCameraActive (st busy_world)
   \<and> isSpeaking (st busy_world)
   \<and> map u_text (synth_queue busy_world) = [''Hello'']
   \<and> map t_id (timers busy_world) = [2]
   \<and> \<not> isSpeaking (st (switchCamera (st busy_world) (Inr ()) busy_world))
   \<and> map u_text (synth_cancelled (switchCamera (st busy_world) (Inr ()) busy_world)) = [''Hello'']
   \<and> map u_text (synth_queue (switchCamera (st busy_world) (Inr ()) busy_world))
       = [''Camera mode set to front camera.'']
   \<and> map t_id (timers (switchCamera (st busy_world) (Inr ()) busy_world)) = [4]"
    unfolding busy_world_def by code_simp
  show ?thesis using a b by blast
qed

text \<open>
  Claim C10, as the code has it. When the render's \<open>isCameraActive\<close> is false,
  \<open>switchCamera\<close> returns without awaiting anything. It sets \<open>cameraMode\<close> to
  \<open>environment\<close> when the render's value is \<open>user\<close> and to \<open>user\<close> when it is
  \<open>environment\<close>, and hands the matching announcement (``back camera'' or ``front
  camera'') to \<open>speak\<close>, which is the only call it records (no \<open>getUserMedia\<close>, no
  track stopped). Of the state cells only \<open>cameraMode\<close> and the speaking flag can
  change: the speaking flag becomes false when the guard of \<open>speak\<close> passes (speech
  enabled, synthesis available, microphone granted) and keeps its value otherwise;
  \<open>mediaStream\<close>, \<open>isCameraActive\<close>, \<open>capturedImage\<close> and the rest keep theirs. The
  streams, the video element, the canvas and the recogniser are untouched, and no
  callback or restart timer is added. When the announcement can be spoken it is the one
  utterance queued and the utterances in flight are cancelled; when the guard fails,
  nothing but \<open>cameraMode\<close> and the recorded call differs from the world before.
\<close>

theorem switchCamera_while_inactive:
  assumes "\<not> isCameraActive c"
  shows "\<exists>w'. switchCamera_begin c w = Finished w'
     \<and> st w' = (st w)\<lparr>cameraMode := (if cameraMode c = user then environment else user),
                        isSpeaking := (isSpeaking (st w)
                           \<and> \<not> (speechEnabled c \<and> hasSpeechSynthesis w
                                 \<and> microphonePermission c = Some granted))\<rparr>
     \<and> trace w' = trace w @ [SpeakCalled (if cameraMode c = user
                                            then ''Camera mode set to back camera.''
                                            else ''Camera mode set to front camera.'')]
     \<and> streams w' = streams w \<and> videoRef w' = videoRef w \<and> canvasRef w' = canvasRef w
     \<and> recognitionRef w' = recognitionRef w \<and> rec_started w' = rec_started w
     \<and> set (held_callbacks w') \<subseteq> set (held_callbacks w)
     \<and> set (restart_timers w') \<subseteq> set (restart_timers w)
     \<and> (can_speak c w \<longrightarrow>
           map u_text (synth_queue w') = [if cameraMode c = user
                                          then ''Camera mode set to back camera.''
                                          else ''Camera mode set to front camera.'']
           \<and> synth_cancelled w' = synth_cancelled w @ synth_queue w)
     \<and> (\<not> (speechEnabled c \<and> hasSpeechSynthesis w \<and> microphonePermission c = Some granted) \<longrightarrow>
           w' = w\<lparr>st := (st w)\<lparr>cameraMode := (if cameraMode c = user then environment else user)\<rparr>,
                   trace := trace w @ [SpeakCalled (if cameraMode c = user
                                                    then ''Camera mode set to back camera.''
                                                    else ''Camera mode set to front camera.'')]\<rparr>)"
proof -
  let ?new = "if cameraMode c = user then environment else user"
  let ?m = "if cameraMode c = user then ''Camera mode set to back camera.''
            else ''Camera mode set to front camera.''"
  let ?w1 = "setCameraMode ?new w"
  let ?w' = "speak_plain c ?m ?w1"
  have new: "toggled (cameraMode c) = ?new"
    by (simp add: toggled_def)
  have m: "''Camera mode set to '' @ camera_name (toggled (cameraMode c)) @ '' camera.'' = ?m"
    by (cases "cameraMode c") (simp_all add: toggled_def camera_name_def)
  have tm: "trim ?m = ?m" "trim ?m \<noteq> []"
    by (simp_all add: trim_def is_whitespace_def)
  have eq: "switchCamera_begin c w = Finished ?w'"
    using assms m by (simp add: switchCamera_begin_def Let_def speak_None new)
  have s: "st ?w' = (st w)\<lparr>cameraMode := ?new,
                        isSpeaking := (isSpeaking (st w)
                           \<and> \<not> (speechEnabled c \<and> hasSpeechSynthesis w
                                 \<and> microphonePermission c = Some granted))\<rparr>"
    using speak_plain_st_exact[OF tm(2), of c ?w1] by simp
  have t: "trace ?w' = trace w @ [SpeakCalled ?m]"
    by (simp add: speak_plain_trace)
  have d: "streams ?w' = streams w \<and> videoRef ?w' = videoRef w \<and> canvasRef ?w' = canvasRef w
     \<and> recognitionRef ?w' = recognitionRef w \<and> rec_started ?w' = rec_started w"
    using speak_plain_devices[of c ?m ?w1] by simp
  have h: "set (held_callbacks ?w') \<subseteq> set (held_callbacks w)"
    using speak_plain_held[of c ?m ?w1] by simp
  have r: "set (restart_timers ?w') \<subseteq> set (restart_timers w)"
    using speak_plain_restart_timers[of c ?m ?w1] by (simp add: restart_timers_def)
  have q: "can_speak c w \<longrightarrow> map u_text (synth_queue ?w') = [?m]
           \<and> synth_cancelled ?w' = synth_cancelled w @ synth_queue w"
  proof
    assume "can_speak c w"
    then have cs: "can_speak c ?w1" by (simp add: can_speak_def)
    show "map u_text (synth_queue ?w') = [?m]
           \<and> synth_cancelled ?w' = synth_cancelled w @ synth_queue w"
      using speak_plain_queue[OF cs tm(2)] speak_plain_cancels[OF cs tm(2)] tm(1) by simp
  qed
  have b: "\<not> (speechEnabled c \<and> hasSpeechSynthesis w \<and> microphonePermission c = Some granted) \<longrightarrow>
           ?w' = w\<lparr>st := (st w)\<lparr>cameraMode := ?new\<rparr>, trace := trace w @ [SpeakCalled ?m]\<rparr>"
  proof
    assume "\<not> (speechEnabled c \<and> hasSpeechSynthesis w \<and> microphonePermission c = Some granted)"
    then have "\<not> (speechEnabled c \<and> hasSpeechSynthesis ?w1 \<and> microphonePermission c = Some granted)"
      by simp
    from speak_plain_blocked[OF this, of ?m]
    show "?w' = w\<lparr>st := (st w)\<lparr>cameraMode := ?new\<rparr>, trace := trace w @ [SpeakCalled ?m]\<rparr>"
      by simp
  qed
  show ?thesis
  proof (rule exI[of _ ?w'], intro conjI)
    show "switchCamera_begin c w = Finished ?w'" by (rule eq)
    show "st ?w' = (st w)\<lparr>cameraMode := ?new,
                        isSpeaking := (isSpeaking (st w)
                           \<and> \<not> (speechEnabled c \<and> hasSpeechSynthesis w
                                 \<and> microphonePermission c = Some granted))\<rparr>"
      by (rule s)
    show "trace ?w' = trace w @ [SpeakCalled ?m]" by (rule t)
    show "streams ?w' = streams w" and "videoRef ?w' = videoRef w"
      and "canvasRef ?w' = canvasRef w" and "recognitionRef ?w' = recognitionRef w"
      and "rec_started ?w' = rec_started w"
      using d by blast+
    show "set (held_callbacks ?w') \<subseteq> set (held_callbacks w)" by (rule h)
    show "set (restart_timers ?w') \<subseteq> set (restart_timers w)" by (rule r)
    show "can_speak c w \<longrightarrow> map u_text (synth_queue ?w') = [?m]
           \<and> synth_cancelled ?w' = synth_cancelled w @ synth_queue w" by (rule q)
    show "\<not> (speechEnabled c \<and> hasSpeechSynthesis w \<and> microphonePermission c = Some granted) \<longrightarrow>
           ?w' = w\<lparr>st := (st w)\<lparr>cameraMode := ?new\<rparr>, trace := trace w @ [SpeakCalled ?m]\<rparr>"
      by (rule b)
  qed
qed



theorem switchCamera_while_inactive_witness:
  "(\<exists>w'. switchCamera_begin (st mounted_world) mounted_world = Finished w'
      \<and> cameraMode (st w') = user \<and> \<not> isCameraActive (st w') \<and> mediaStream (st w') = None
      \<and> capturedImage (st w') = None \<and> \<not> isSpeaking (st w')
      \<and> trace w' = [SpeakCalled ''Camera mode set to front camera.'']
      \<and> streams w' = streams mounted_world)
   \<and> (\<exists>w'. switchCamera_begin ((st mounted_world)\<lparr>cameraMode := user\<rparr>)
              (mounted_world\<lparr>st := (st mounted_world)\<lparr>cameraMode := user\<rparr>\<rparr>) = Finished w'
      \<and> cameraMode (st w') = environment \<and> \<not> isCameraActive (st w') \<and> mediaStream (st w') = None
      \<and> trace w' = [SpeakCalled ''Camera mode set to back camera.''])"
proof -
  let ?c2 = "(st mounted_world)\<lparr>cameraMode := user\<rparr>"
  let ?w2 = "mounted_world\<lparr>st := ?c2\<rparr>"
  have i1: "\<not> isCameraActive (st mounted_world)" and i2: "\<not> isCameraActive ?c2"
    by (simp_all add: mounted_world_def initial_state_def)
  obtain w1 where b1: "switchCamera_begin (st mounted_world) mounted_world = Finished w1"
    and s1: "st w1 = (st mounted_world)\<lparr>cameraMode :=
                (if cameraMode (st mounted_world) = user then environment else user),
              isSpeaking := (isSpeaking (st mounted_world)
                 \<and> \<not> (speechEnabled (st mounted_world) \<and> hasSpeechSynthesis mounted_world
                       \<and> microphonePermission (st mounted_world) = Some granted))\<rparr>"
    and t1: "trace w1 = trace mounted_world @ [SpeakCalled
                (if cameraMode (st mounted_world) = user
                 then ''Camera mode set to back camera.''
                 else ''Camera mode set to front camera.'')]"
    and d1: "streams w1 = streams mounted_world"
    using switchCamera_while_inactive[OF i1, of mounted_world] by blast
  obtain w2 where b2: "switchCamera_begin ?c2 ?w2 = Finished w2"
    and s2: "st w2 = (st ?w2)\<lparr>cameraMode := (if cameraMode ?c2 = user then environment else user),
              isSpeaking := (isSpeaking (st ?w2)
                 \<and> \<not> (speechEnabled ?c2 \<and> hasSpeechSynthesis ?w2
                       \<and> microphonePermission ?c2 = Some granted))\<rparr>"
    and t2: "trace w2 = trace ?w2 @ [SpeakCalled
                (if cameraMode ?c2 = user
                 then ''Camera mode set to back camera.''
                 else ''Camera mode set to front camera.'')]"
    using switchCamera_while_inactive[OF i2, of ?w2] by blast
  have "cameraMode (st w1) = user \<and> \<not> isCameraActive (st w1) \<and> mediaStream (st w1) = None
      \<and> capturedImage (st w1) = None \<and> \<not> isSpeaking (st w1)
      \<and> trace w1 = [SpeakCalled ''Camera mode set to front camera.'']"
    using s1 t1 by (simp add: mounted_world_def initial_state_def)
  moreover have "cameraMode (st w2) = environment \<and> \<not> isCameraActive (st w2)
      \<and> mediaStream (st w2) = None
      \<and> trace w2 = [SpeakCalled ''Camera mode set to back camera.'']"
    using s2 t2 by (simp add: mounted_world_def initial_state_def)
  ultimately show ?thesis using b1 b2 d1 by blast
qed

end
